theory Spec2Isabelle
  imports Complex_Main "HOL-Library.Word" "HOL-Library.Sublist"
begin

section \<open>JavaScript values\<close>

text \<open>
  A JavaScript string is a sequence of UTF-16 code units; \<open>length\<close>, \<open>trim\<close> and the
  regular expression of \<open>parseResponse\<close> all work on code units. \<open>js\<close> turns an ASCII
  literal of the source into such a sequence.
\<close>

type_synonym jschar = "16 word"
type_synonym jsstring = "jschar list"

definition js :: "string \<Rightarrow> jsstring" where
  "js s = map (\<lambda>c. of_nat (of_char c)) s"

text \<open>
  The code units that ECMAScript counts as WhiteSpace or LineTerminator. These are what
  \<open>String.prototype.trim\<close> removes and what \<open>\s\<close> matches in a regular expression.
\<close>

definition is_space :: "jschar \<Rightarrow> bool" where
  "is_space c =
     (c = 0x09 \<or> c = 0x0A \<or> c = 0x0B \<or> c = 0x0C \<or> c = 0x0D \<or> c = 0x20 \<or> c = 0xA0
      \<or> c = 0x1680 \<or> (0x2000 \<le> c \<and> c \<le> 0x200A) \<or> c = 0x2028 \<or> c = 0x2029
      \<or> c = 0x202F \<or> c = 0x205F \<or> c = 0x3000 \<or> c = 0xFEFF)"

definition trim :: "jsstring \<Rightarrow> jsstring" where
  "trim s = rev (dropWhile is_space (rev (dropWhile is_space s)))"

text \<open>
  A number is the value of a double: a rational, an infinity or NaN. A decoded JSON text
  never holds NaN or \<open>undefined\<close>, but a caller of \<open>refineGoal\<close> can pass any value.
\<close>

datatype jsnum = Finite rat | PosInfinity | NegInfinity | NaN

datatype jsvalue =
    JUndefined
  | JNull
  | JBool bool
  | JNum jsnum
  | JStr jsstring
  | JArr "jsvalue list"
  | JObj "(jsstring \<times> jsvalue) list"

text \<open>The relational operator \<open><\<close> on two numbers.\<close>

fun num_lt :: "jsnum \<Rightarrow> jsnum \<Rightarrow> bool" where
  "num_lt NaN _ = False"
| "num_lt _ NaN = False"
| "num_lt (Finite a) (Finite b) = (a < b)"
| "num_lt (Finite a) PosInfinity = True"
| "num_lt (Finite a) NegInfinity = False"
| "num_lt PosInfinity _ = False"
| "num_lt NegInfinity NegInfinity = False"
| "num_lt NegInfinity _ = True"

text \<open>\<open>Number.isInteger\<close>.\<close>

fun is_integer :: "jsnum \<Rightarrow> bool" where
  "is_integer (Finite r) = (r = of_int \<lfloor>r\<rfloor>)"
| "is_integer _ = False"

text \<open>Truthiness, as \<open>!x\<close> and \<open>||\<close> see it.\<close>

fun truthy :: "jsvalue \<Rightarrow> bool" where
  "truthy JUndefined = False"
| "truthy JNull = False"
| "truthy (JBool b) = b"
| "truthy (JNum (Finite r)) = (r \<noteq> 0)"
| "truthy (JNum NaN) = False"
| "truthy (JNum _) = True"
| "truthy (JStr s) = (s \<noteq> [])"
| "truthy (JArr _) = True"
| "truthy (JObj _) = True"

fun nullish :: "jsvalue \<Rightarrow> bool" where
  "nullish JUndefined = True"
| "nullish JNull = True"
| "nullish _ = False"

text \<open>
  Reading a property \<open>v.name\<close> of a value that is neither \<open>null\<close> nor \<open>undefined\<close>, for
  the names the source reads (\<open>candidates\<close>, \<open>content\<close>, \<open>parts\<close>, \<open>text\<close>, \<open>error\<close>,
  \<open>message\<close> and the three fields of a goal): none of them is a built-in property of
  strings, arrays, numbers or booleans, so only an object can have one.
\<close>

fun get :: "jsstring \<Rightarrow> jsvalue \<Rightarrow> jsvalue" where
  "get name (JObj kvs) = (case map_of kvs name of Some x \<Rightarrow> x | None \<Rightarrow> JUndefined)"
| "get name _ = JUndefined"

text \<open>Reading \<open>v[0]\<close>: the first element of an array, the first code unit of a string,
  the property \<open>"0"\<close> of an object.\<close>

fun get0 :: "jsvalue \<Rightarrow> jsvalue" where
  "get0 (JArr xs) = (case xs of [] \<Rightarrow> JUndefined | x # _ \<Rightarrow> x)"
| "get0 (JStr s) = (case s of [] \<Rightarrow> JUndefined | c # _ \<Rightarrow> JStr [c])"
| "get0 (JObj kvs) = get (js ''0'') (JObj kvs)"
| "get0 _ = JUndefined"

text \<open>Optional chaining: \<open>v?.name\<close> and \<open>v?.[0]\<close>.\<close>

definition opt_get :: "jsstring \<Rightarrow> jsvalue \<Rightarrow> jsvalue" where
  "opt_get name v = (if nullish v then JUndefined else get name v)"

definition opt_get0 :: "jsvalue \<Rightarrow> jsvalue" where
  "opt_get0 v = (if nullish v then JUndefined else get0 v)"

section \<open>The schema of a refined goal\<close>

text \<open>
  \<open>goalSchema\<close> is built from zod's \<open>z.object\<close>, \<open>z.string().min\<close>, \<open>z.array().min().max()\<close>
  and \<open>z.number().int().min().max()\<close>. The source imports \<open>zod\<close> without fixing a
  version. Which values a schema accepts, and the value it returns for them, is the same
  in every version: a value is accepted when its type is right and all its checks hold,
  an array when all its elements are accepted as well, an object when all its fields
  are; the result of an object holds the fields of the schema and no other. That is what
  the functions below compute, with \<open>None\<close> for a value that is not accepted.

  Which issues the \<open>ZodError\<close> of a value that is not accepted holds is not the same in
  every version (one version runs every check of a number, another stops after a failed
  integer check), so the issues are not computed here: they are what the installed zod
  answers, \<open>zod_issues\<close> below. An issue carries the path of the value, a code and, for
  a check that the schema gives a message, the schema's message; the messages of
  \<open>goalSchema\<close> are listed with \<open>issue_of\<close> below.
\<close>

datatype key = Name jsstring | Index nat

datatype zod_kind = ZodObject | ZodString | ZodArray | ZodNumber | ZodInteger

datatype issue_code = invalid_type zod_kind | too_small | too_big

datatype issue = Issue (path: "key list") (code: issue_code) (message: "jsstring option")

record goal =
  refined_goal :: jsstring
  key_results :: "jsstring list"
  confidence_score :: jsnum

text \<open>\<open>z.string().min(n)\<close>.\<close>

definition z_string_min :: "nat \<Rightarrow> jsvalue \<Rightarrow> jsstring option" where
  "z_string_min n v =
     (case v of
        JStr s \<Rightarrow> if length s < n then None else Some s
      | _ \<Rightarrow> None)"

text \<open>The elements of an array, each parsed by the schema \<open>el\<close> of the elements.\<close>

fun parse_items :: "(jsvalue \<Rightarrow> 'a option) \<Rightarrow> jsvalue list \<Rightarrow> 'a list option" where
  "parse_items el [] = Some []"
| "parse_items el (x # xs) =
     (case el x of
        None \<Rightarrow> None
      | Some a \<Rightarrow> (case parse_items el xs of None \<Rightarrow> None | Some as \<Rightarrow> Some (a # as)))"

text \<open>\<open>z.array(el).min(lo).max(hi)\<close>.\<close>

definition z_array_min_max ::
  "(jsvalue \<Rightarrow> 'a option) \<Rightarrow> nat \<Rightarrow> nat \<Rightarrow> jsvalue \<Rightarrow> 'a list option" where
  "z_array_min_max el lo hi v =
     (case v of
        JArr xs \<Rightarrow> if length xs < lo \<or> hi < length xs then None else parse_items el xs
      | _ \<Rightarrow> None)"

text \<open>\<open>z.number().int().min(lo).max(hi)\<close>; NaN is not a number for zod.\<close>

definition z_number_int_min_max :: "rat \<Rightarrow> rat \<Rightarrow> jsvalue \<Rightarrow> jsnum option" where
  "z_number_int_min_max lo hi v =
     (case v of
        JNum n \<Rightarrow>
          if n = NaN \<or> \<not> is_integer n \<or> num_lt n (Finite lo) \<or> num_lt (Finite hi) n
          then None else Some n
      | _ \<Rightarrow> None)"

definition goalSchema :: "jsvalue \<Rightarrow> goal option" where
  "goalSchema v =
     (case v of
        JObj kvs \<Rightarrow>
          (case z_string_min 1 (get (js ''refined_goal'') v) of
             None \<Rightarrow> None
           | Some a \<Rightarrow>
               (case z_array_min_max (z_string_min 1) 3 5 (get (js ''key_results'') v) of
                  None \<Rightarrow> None
                | Some b \<Rightarrow>
                    (case z_number_int_min_max 1 10 (get (js ''confidence_score'') v) of
                       None \<Rightarrow> None
                     | Some c \<Rightarrow>
                         Some \<lparr>refined_goal = a, key_results = b, confidence_score = c\<rparr>)))
      | _ \<Rightarrow> None)"

section \<open>Failures, the outside world and the trace of a call\<close>

text \<open>
  Every \<open>throw\<close> of the source is a value of \<open>failure\<close>. An error that the source
  builds around the message of another one keeps that other failure:
  \<^item> \<open>ApiKeyNotSet\<close>: \<open>Error('GOOGLE_API_KEY environment variable is not set')\<close>;
  \<^item> \<open>FetchFailed m\<close>: \<open>fetch\<close> rejects with message \<open>m\<close>;
  \<^item> \<open>BodyNotJson m\<close>: \<open>response.json()\<close> rejects with message \<open>m\<close>;
  \<^item> \<open>TypeError\<close>: a property of \<open>null\<close> or \<open>undefined\<close> is read, or something that is
    not a function is called;
  \<^item> \<open>GeminiApiError status detail\<close>: \<open>Error(`Gemini API error (${status}): ${detail}`)\<close>;
  \<^item> \<open>FailedToCall e\<close>: \<open>Error(`Failed to call Gemini API: ${e.message}`)\<close>;
  \<^item> \<open>InvalidStructure\<close>: \<open>Error('Invalid API response structure')\<close>;
  \<^item> \<open>SyntaxError m\<close>: \<open>JSON.parse\<close> throws with message \<open>m\<close>;
  \<^item> \<open>FailedToParse e\<close>: \<open>Error(`Failed to parse API response: ${e.message}`)\<close>;
  \<^item> \<open>ZodError issues\<close>: \<open>goalSchema.parse\<close> throws an error that holds \<open>issues\<close>;
  \<^item> \<open>TelemetryFailed m\<close>: \<open>TelemetryService.logAICall\<close> throws with message \<open>m\<close>.
\<close>

datatype failure =
    ApiKeyNotSet
  | FetchFailed jsstring
  | BodyNotJson jsstring
  | TypeError
  | GeminiApiError nat jsvalue
  | FailedToCall failure
  | InvalidStructure
  | SyntaxError jsstring
  | FailedToParse failure
  | ZodError "issue list"
  | TelemetryFailed jsstring

text \<open>
  What \<open>fetch\<close> gives: it rejects, or it resolves to a response with a status, a status
  text and a body; \<open>response.json()\<close> rejects when the body is not JSON.
\<close>

datatype body = NotJson jsstring | Json jsvalue

datatype fetch_result = NetworkError jsstring | Response nat jsstring body

text \<open>\<open>response.ok\<close> is true for the statuses 200 to 299.\<close>

definition response_ok :: "nat \<Rightarrow> bool" where
  "response_ok status = (200 \<le> status \<and> status \<le> 299)"

text \<open>
  The argument of \<open>TelemetryService.logAICall\<close>. \<open>errorMessage\<close> keeps the failure whose
  message the source passes. \<open>latencyMs\<close>, a difference of two clock readings, is left out.
\<close>

record telemetry =
  userInput :: jsstring
  aiOutput :: "goal option"
  promptTokens :: nat
  completionTokens :: nat
  model :: jsstring
  success :: bool
  errorMessage :: "failure option"

text \<open>
  What a call does to the outside, in order: \<open>Attempt n\<close> when the retry loop calls
  \<open>callGeminiAPI\<close> in iteration \<open>n\<close>, \<open>Fetch\<close> when a request is sent, \<open>Delay ms\<close> when the loop
  waits, \<open>LogAICall d\<close> when \<open>TelemetryService.logAICall\<close> is called with \<open>d\<close>. Console output
  is not recorded.
\<close>

datatype event = Attempt nat | Fetch | Delay nat | LogAICall telemetry

text \<open>
  What a call depends on:
  \<^item> \<open>api_key_cache\<close> is \<open>this._apiKey\<close> and \<open>GOOGLE_API_KEY\<close> the environment variable
    (\<open>None\<close> for \<open>null\<close> or \<open>undefined\<close>);
  \<^item> \<open>fetch w n\<close> is what the request of attempt \<open>n\<close> gives;
  \<^item> \<open>JSON_parse\<close> and \<open>JSON_stringify\<close> are the platform's functions (\<open>Inl m\<close>: a
    \<open>SyntaxError\<close> with message \<open>m\<close>);
  \<^item> \<open>zod_issues w v\<close> are the issues that the installed zod puts in the \<open>ZodError\<close> of
    \<open>goalSchema.parse(v)\<close>, for a value \<open>v\<close> that the schema does not accept;
  \<^item> \<open>sink w k\<close> is what happens to the call number \<open>k\<close> (from 0) of
    \<open>TelemetryService.logAICall\<close>: \<open>None\<close> when the entry is stored, \<open>Some m\<close> when
    \<open>initialize\<close> or the insert throws.
\<close>

record world =
  api_key_cache :: "jsstring option"
  GOOGLE_API_KEY :: "jsstring option"
  fetch :: "nat \<Rightarrow> fetch_result"
  JSON_parse :: "jsstring \<Rightarrow> jsstring + jsvalue"
  JSON_stringify :: "goal \<Rightarrow> jsstring"
  zod_issues :: "jsvalue \<Rightarrow> issue list"
  sink :: "nat \<Rightarrow> jsstring option"

text \<open>\<open>goalSchema.parse\<close>: the parsed value, or a \<open>ZodError\<close>.\<close>

definition goalSchema_parse :: "world \<Rightarrow> jsvalue \<Rightarrow> failure + goal" where
  "goalSchema_parse w v =
     (case goalSchema v of
        None \<Rightarrow> Inl (ZodError (zod_issues w v))
      | Some g \<Rightarrow> Inr g)"

section \<open>GeminiService\<close>

definition gemini_model :: jsstring where
  "gemini_model = js ''gemini-2.5-flash''"

text \<open>
  The getter \<open>apiKey\<close>: the cached key when it is truthy, the environment variable
  otherwise. The getter also stores what it read in the cache; the next read then gives
  the same value, so the world stays as it is.
\<close>

definition apiKey :: "world \<Rightarrow> jsstring option" where
  "apiKey w =
     (case api_key_cache w of
        None \<Rightarrow> GOOGLE_API_KEY w
      | Some k \<Rightarrow> if k = [] then GOOGLE_API_KEY w else Some k)"

text \<open>\<open>!this.apiKey\<close>.\<close>

definition no_apiKey :: "world \<Rightarrow> bool" where
  "no_apiKey w = (case apiKey w of None \<Rightarrow> True | Some k \<Rightarrow> k = [])"

definition callGeminiAPI :: "world \<Rightarrow> nat \<Rightarrow> (failure + jsvalue) \<times> event list" where
  "callGeminiAPI w attempt =
     (if no_apiKey w then (Inl (FailedToCall ApiKeyNotSet), [])
      else
        (case fetch w attempt of
           NetworkError m \<Rightarrow> (Inl (FailedToCall (FetchFailed m)), [Fetch])
         | Response status statusText b \<Rightarrow>
             (if \<not> response_ok status then
                (case b of
                   NotJson m \<Rightarrow> (Inl (FailedToCall (BodyNotJson m)), [Fetch])
                 | Json errorData \<Rightarrow>
                     (if nullish errorData then (Inl (FailedToCall TypeError), [Fetch])
                      else
                        (let m = opt_get (js ''message'') (get (js ''error'') errorData)
                         in (Inl (FailedToCall
                                   (GeminiApiError status
                                      (if truthy m then m else JStr statusText))),
                             [Fetch]))))
              else
                (case b of
                   NotJson m \<Rightarrow> (Inl (FailedToCall (BodyNotJson m)), [Fetch])
                 | Json data \<Rightarrow> (Inr data, [Fetch])))))"

text \<open>
  The loop of \<open>callGeminiAPIWithRetry\<close>, from iteration \<open>attempt\<close> on. When the loop ends
  without a \<open>return\<close> or a \<open>throw\<close> (no iteration at all), the function returns
  \<open>undefined\<close>.
\<close>

function retry_loop :: "world \<Rightarrow> nat \<Rightarrow> nat \<Rightarrow> (failure + jsvalue) \<times> event list" where
  "retry_loop w maxRetries attempt =
     (if attempt \<le> maxRetries then
        (case callGeminiAPI w attempt of
           (Inr data, t) \<Rightarrow> (Inr data, Attempt attempt # t)
         | (Inl error, t) \<Rightarrow>
             (if attempt = maxRetries then (Inl error, Attempt attempt # t)
              else
                (case retry_loop w maxRetries (attempt + 1) of
                   (r, t') \<Rightarrow> (r, Attempt attempt # t @ Delay 4000 # t'))))
      else (Inr JUndefined, []))"
  by pat_completeness auto
termination
  by (relation "measure (\<lambda>(w, maxRetries, attempt). maxRetries + 1 - attempt)") auto

declare retry_loop.simps [simp del]

definition callGeminiAPIWithRetry :: "world \<Rightarrow> nat \<Rightarrow> (failure + jsvalue) \<times> event list" where
  "callGeminiAPIWithRetry w maxRetries = retry_loop w maxRetries 1"

subsection \<open>The regular expression of \<open>parseResponse\<close>\<close>

text \<open>
  \<open>/```(?:json)?\s*([\s\S]*?)\s*```/\<close> is matched by backtracking. Each piece of the
  pattern takes the matcher \<open>k\<close> of what follows it and gives the first success, trying
  its alternatives in ECMAScript's order: a literal; an optional group, first with the
  group and then without; a greedy star over a class, longest first; the lazy star of
  the capture group over any code unit, shortest first, which hands the captured text
  to what follows.
\<close>

definition lit :: "jsstring \<Rightarrow> (jsstring \<Rightarrow> 'a option) \<Rightarrow> jsstring \<Rightarrow> 'a option" where
  "lit l k s = (if prefix l s then k (drop (length l) s) else None)"

definition optional ::
  "((jsstring \<Rightarrow> 'a option) \<Rightarrow> jsstring \<Rightarrow> 'a option) \<Rightarrow> (jsstring \<Rightarrow> 'a option)
     \<Rightarrow> jsstring \<Rightarrow> 'a option" where
  "optional r k s = (case r k s of Some x \<Rightarrow> Some x | None \<Rightarrow> k s)"

fun star_greedy :: "(jschar \<Rightarrow> bool) \<Rightarrow> (jsstring \<Rightarrow> 'a option) \<Rightarrow> jsstring \<Rightarrow> 'a option" where
  "star_greedy p k [] = k []"
| "star_greedy p k (c # cs) =
     (if p c then (case star_greedy p k cs of Some x \<Rightarrow> Some x | None \<Rightarrow> k (c # cs))
      else k (c # cs))"

fun star_lazy_group ::
  "(jsstring \<Rightarrow> jsstring \<Rightarrow> 'a option) \<Rightarrow> jsstring \<Rightarrow> jsstring \<Rightarrow> 'a option" where
  "star_lazy_group k g [] = k g []"
| "star_lazy_group k g (c # cs) =
     (case k g (c # cs) of Some x \<Rightarrow> Some x | None \<Rightarrow> star_lazy_group k (g @ [c]) cs)"

text \<open>A match that starts at the first code unit of \<open>s\<close>; the result is group 1.\<close>

definition fence_at :: "jsstring \<Rightarrow> jsstring option" where
  "fence_at s =
     lit (js ''```'')
       (optional (lit (js ''json''))
         (star_greedy is_space
           (star_lazy_group
             (\<lambda>g. star_greedy is_space (lit (js ''```'') (\<lambda>_. Some g))) []))) s"

text \<open>\<open>textContent.match(...)\<close>: the match with the leftmost start.\<close>

fun match_fence :: "jsstring \<Rightarrow> jsstring option" where
  "match_fence [] = fence_at []"
| "match_fence (c # cs) =
     (case fence_at (c # cs) of Some g \<Rightarrow> Some g | None \<Rightarrow> match_fence cs)"

subsection \<open>\<open>parseResponse\<close>\<close>

text \<open>\<open>apiResponse.candidates?.[0]?.content?.parts?.[0]?.text\<close>, for an \<open>apiResponse\<close> that
  is neither \<open>null\<close> nor \<open>undefined\<close>.\<close>

definition textContent :: "jsvalue \<Rightarrow> jsvalue" where
  "textContent apiResponse =
     opt_get (js ''text'')
       (opt_get0
         (opt_get (js ''parts'')
           (opt_get (js ''content'')
             (opt_get0 (get (js ''candidates'') apiResponse)))))"

definition parseResponse :: "world \<Rightarrow> jsvalue \<Rightarrow> failure + jsvalue" where
  "parseResponse w apiResponse =
     (if nullish apiResponse then Inl (FailedToParse TypeError)
      else
        (let tc = textContent apiResponse in
         if \<not> truthy tc then Inl (FailedToParse InvalidStructure)
         else
           (case tc of
              JStr t \<Rightarrow>
                (let jsonStr = (case match_fence t of Some g \<Rightarrow> g | None \<Rightarrow> t);
                     trimmed = trim jsonStr
                 in (case JSON_parse w trimmed of
                       Inl m \<Rightarrow> Inl (FailedToParse (SyntaxError m))
                     | Inr parsed \<Rightarrow> Inr parsed))
            | _ \<Rightarrow> Inl (FailedToParse TypeError))))"

subsection \<open>\<open>refineGoal\<close>\<close>

definition buildPrompt :: "jsstring \<Rightarrow> jsstring" where
  \<open>buildPrompt input =
     js ''You are an expert goal-setting coach. Analyze the following vague goal and convert it into a SMART goal (Specific, Measurable, Achievable, Relevant, Time-bound).\<newline>\<newline>User Input: "''
     @ input
     @ js ''"\<newline>\<newline>Respond with a JSON object containing:\<newline>1. refined_goal: A clear, SMART version of the goal\<newline>2. key_results: An array of 3-5 measurable milestones/key results\<newline>3. confidence_score: A number 1-10 indicating your confidence that the input was actually a goal (0 = definitely not a goal, 10 = definitely a valid goal)\<newline>\<newline>If the input is nonsensical or obviously not a goal, set confidence_score to a low number and provide the best interpretation you can.\<newline>\<newline>Return ONLY valid JSON, no markdown formatting.''\<close>

text \<open>\<open>Math.ceil(text.length / 4)\<close>.\<close>

definition estimateTokens :: "jsstring \<Rightarrow> nat" where
  "estimateTokens text = (length text + 3) div 4"

text \<open>
  \<open>TelemetryService.logAICall\<close>, called for the \<open>k\<close>-th time in this invocation: the call
  is made, and it throws when the sink says so.
\<close>

definition logAICall :: "world \<Rightarrow> nat \<Rightarrow> telemetry \<Rightarrow> failure option \<times> event list" where
  "logAICall w k d =
     (case sink w k of None \<Rightarrow> None | Some m \<Rightarrow> Some (TelemetryFailed m), [LogAICall d])"

text \<open>
  How a call of \<open>refineGoal\<close> ends: it returns the validated goal (or the goal of
  \<open>handleEmptyInput\<close>), it returns the object \<open>{error: message}\<close>, or it throws.
\<close>

datatype outcome = Accepted goal | Rejected jsstring | Failed failure

definition handleEmptyInput :: "world \<Rightarrow> outcome \<times> event list" where
  "handleEmptyInput w =
     (let response =
            \<lparr>refined_goal = js ''No goal provided'', key_results = [],
             confidence_score = Finite 0\<rparr>
      in (case logAICall w 0
                 \<lparr>userInput = js ''EMPTY_INPUT'', aiOutput = Some response, promptTokens = 0,
                  completionTokens = 0, model = gemini_model, success = True,
                  errorMessage = None\<rparr> of
            (Some e, t) \<Rightarrow> (Failed e, t)
          | (None, t) \<Rightarrow> (Accepted response, t)))"

text \<open>The body of the \<open>try\<close> block; \<open>Failed e\<close> is an exception on its way to \<open>catch\<close>.\<close>

definition refineGoal_try :: "world \<Rightarrow> jsstring \<Rightarrow> outcome \<times> event list" where
  "refineGoal_try w input =
     (let prompt = buildPrompt input in
      (case callGeminiAPIWithRetry w 3 of
         (Inl e, t) \<Rightarrow> (Failed e, t)
       | (Inr response, t) \<Rightarrow>
           (case parseResponse w response of
              Inl e \<Rightarrow> (Failed e, t)
            | Inr parsedResponse \<Rightarrow>
                (case goalSchema_parse w parsedResponse of
                   Inl e \<Rightarrow> (Failed e, t)
                 | Inr validatedResponse \<Rightarrow>
                     (if num_lt (confidence_score validatedResponse) (Finite 4) then
                        (Rejected (js ''Input does not appear to be a valid goal.''), t)
                      else
                        (case logAICall w 0
                                \<lparr>userInput = input, aiOutput = Some validatedResponse,
                                 promptTokens = estimateTokens prompt,
                                 completionTokens =
                                   estimateTokens (JSON_stringify w validatedResponse),
                                 model = gemini_model, success = True,
                                 errorMessage = None\<rparr> of
                           (Some e, t') \<Rightarrow> (Failed e, t @ t')
                         | (None, t') \<Rightarrow> (Accepted validatedResponse, t @ t')))))))"

text \<open>The number of calls of \<open>logAICall\<close> in a trace.\<close>

fun is_log :: "event \<Rightarrow> bool" where
  "is_log (LogAICall _) = True"
| "is_log _ = False"

definition log_calls :: "event list \<Rightarrow> nat" where
  "log_calls t = length (filter is_log t)"

text \<open>\<open>!userInput || typeof userInput !== 'string' || userInput.trim().length === 0\<close>, with \<open>input\<close> for \<open>userInput\<close>.\<close>

definition no_input :: "jsvalue \<Rightarrow> bool" where
  "no_input input =
     (\<not> truthy input
      \<or> (case input of JStr s \<Rightarrow> False | _ \<Rightarrow> True)
      \<or> (case input of JStr s \<Rightarrow> length (trim s) = 0 | _ \<Rightarrow> False))"

definition refineGoal :: "world \<Rightarrow> jsvalue \<Rightarrow> outcome \<times> event list" where
  "refineGoal w input =
     (if no_input input then handleEmptyInput w
      else
        (case input of
           JStr s \<Rightarrow>
             (case refineGoal_try w s of
                (Failed error, t) \<Rightarrow>
                  (case logAICall w (log_calls t)
                          \<lparr>userInput = s, aiOutput = None, promptTokens = 0,
                           completionTokens = 0, model = gemini_model, success = False,
                           errorMessage = Some error\<rparr> of
                     (Some e, t') \<Rightarrow> (Failed e, t @ t')
                   | (None, t') \<Rightarrow> (Failed error, t @ t'))
              | (r, t) \<Rightarrow> (r, t))
         | _ \<Rightarrow> handleEmptyInput w))"

section \<open>Sample responses\<close>

text \<open>The envelope of a response with one candidate that has one text part.\<close>

definition envelope :: "jsstring \<Rightarrow> jsvalue" where
  "envelope t =
     JObj [(js ''candidates'',
            JArr [JObj [(js ''content'',
                         JObj [(js ''parts'', JArr [JObj [(js ''text'', JStr t)]])])]])]"

text \<open>A goal as JSON text, with the digits of its score, and the value it decodes to.\<close>

definition sample_text :: "jsstring \<Rightarrow> jsstring" where
  \<open>sample_text digits =
     js ''{"refined_goal":"Run 5 km in under 30 minutes by June","key_results":["Run 3 times a week","Finish a 3 km run in April","Finish a 5 km run in May"],"confidence_score":''
     @ digits @ js ''}''\<close>

definition sample_value :: "jsnum \<Rightarrow> jsvalue" where
  "sample_value score =
     JObj [(js ''refined_goal'', JStr (js ''Run 5 km in under 30 minutes by June'')),
           (js ''key_results'',
            JArr [JStr (js ''Run 3 times a week''), JStr (js ''Finish a 3 km run in April''),
                  JStr (js ''Finish a 5 km run in May'')]),
           (js ''confidence_score'', JNum score)]"

definition sample_goal :: "jsnum \<Rightarrow> goal" where
  "sample_goal score =
     \<lparr>refined_goal = js ''Run 5 km in under 30 minutes by June'',
      key_results = [js ''Run 3 times a week'', js ''Finish a 3 km run in April'',
                     js ''Finish a 5 km run in May''],
      confidence_score = score\<rparr>"

text \<open>
  A world for examples: the key is set, every request is answered with status 200 and
  the envelope of \<open>payload\<close>, \<open>JSON.parse\<close> is given by its value on the one text
  \<open>json_text\<close> (any other text counts as a syntax error here), and the sink answers
  \<open>sink_result\<close> to every call. The examples decode values that the schema accepts, so
  the issues of zod are not read in it.
\<close>

definition sample_world ::
  "jsstring \<Rightarrow> jsstring \<Rightarrow> jsvalue \<Rightarrow> jsstring option \<Rightarrow> world" where
  "sample_world payload json_text json_value sink_result =
     \<lparr>api_key_cache = None, GOOGLE_API_KEY = Some (js ''key''),
      fetch = (\<lambda>n. Response 200 (js ''OK'') (Json (envelope payload))),
      JSON_parse = (\<lambda>s. if s = json_text then Inr json_value
                          else Inl (js ''Unexpected token'')),
      JSON_stringify = (\<lambda>g. json_text),
      zod_issues = (\<lambda>v. []),
      sink = (\<lambda>k. sink_result)\<rparr>"

section \<open>Notions used in the properties\<close>

text \<open>
  The constraints of a refined goal: the score is an integer from 1 to 10, there are 3
  to 5 key results, and the goal and every key result are non-empty.
\<close>

definition valid_goal :: "goal \<Rightarrow> bool" where
  "valid_goal g =
     ((\<exists>n \<in> {1..10::int}. confidence_score g = Finite (of_int n))
      \<and> 3 \<le> length (key_results g) \<and> length (key_results g) \<le> 5
      \<and> refined_goal g \<noteq> []
      \<and> (\<forall>k \<in> set (key_results g). k \<noteq> []))"

text \<open>The goal that \<open>handleEmptyInput\<close> returns.\<close>

definition no_goal_provided :: goal where
  "no_goal_provided =
     \<lparr>refined_goal = js ''No goal provided'', key_results = [], confidence_score = Finite 0\<rparr>"

text \<open>An input that is absent, not a string, or empty after trimming.\<close>

definition absent_or_blank :: "jsvalue \<Rightarrow> bool" where
  "absent_or_blank input = (case input of JStr s \<Rightarrow> trim s = [] | _ \<Rightarrow> True)"

text \<open>The telemetry data that \<open>handleEmptyInput\<close> logs.\<close>

definition empty_input_record :: telemetry where
  "empty_input_record =
     \<lparr>userInput = js ''EMPTY_INPUT'', aiOutput = Some no_goal_provided, promptTokens = 0,
      completionTokens = 0, model = gemini_model, success = True, errorMessage = None\<rparr>"

text \<open>
  An attempt fails at the level of the request: the transport fails, the status is not
  a success, or the body is not JSON.
\<close>

definition attempt_fails :: "world \<Rightarrow> nat \<Rightarrow> bool" where
  "attempt_fails w n =
     (case fetch w n of
        NetworkError m \<Rightarrow> True
      | Response status statusText b \<Rightarrow>
          \<not> response_ok status \<or> (case b of NotJson m \<Rightarrow> True | Json data \<Rightarrow> False))"

text \<open>
  A world where the first request fails in the transport, the second is answered with
  status 503 and the third with a body that is not JSON.
\<close>

definition offline_world :: world where
  "offline_world =
     \<lparr>api_key_cache = None, GOOGLE_API_KEY = Some (js ''key''),
      fetch = (\<lambda>n. if n = 1 then NetworkError (js ''fetch failed'')
                    else if n = 2 then Response 503 (js ''Service Unavailable'') (Json JNull)
                    else Response 200 (js ''OK'') (NotJson (js ''Unexpected end of JSON input''))),
      JSON_parse = (\<lambda>s. Inl (js ''Unexpected token'')),
      JSON_stringify = (\<lambda>g. []),
      zod_issues = (\<lambda>v. []),
      sink = (\<lambda>k. None)\<rparr>"

text \<open>A world where no key is set.\<close>

definition keyless_world :: world where
  "keyless_world =
     \<lparr>api_key_cache = None, GOOGLE_API_KEY = None,
      fetch = (\<lambda>n. Response 200 (js ''OK'') (Json (envelope (sample_text (js ''7''))))),
      JSON_parse = (\<lambda>s. Inr (sample_value (Finite 7))),
      JSON_stringify = (\<lambda>g. []),
      zod_issues = (\<lambda>v. []),
      sink = (\<lambda>k. None)\<rparr>"








text \<open>
  A fenced code block around \<open>content\<close>: the opening fence, with the tag \<open>json\<close> or
  without, a line feed, the content, a line feed and the closing fence.
\<close>

definition fenced :: "bool \<Rightarrow> jsstring \<Rightarrow> jsstring" where
  "fenced tagged content =
     js ''```'' @ (if tagged then js ''json'' else []) @ [0x0A] @ content @ [0x0A] @ js ''```''"

text \<open>A text that holds three backticks in a row somewhere.\<close>

fun has_fence :: "jsstring \<Rightarrow> bool" where
  "has_fence [] = False"
| "has_fence (c # cs) = (prefix (js ''```'') (c # cs) \<or> has_fence cs)"

text \<open>
  The text before the closing fence: the shortest prefix after which only white space
  and three backticks follow. This is what the lazy capture group comes to.
\<close>

fun until_close :: "jsstring \<Rightarrow> jsstring option" where
  "until_close [] = None"
| "until_close (c # cs) =
     (if prefix (js ''```'') (dropWhile is_space (c # cs)) then Some []
      else map_option ((#) c) (until_close cs))"

section \<open>The schema accepts valid goals only\<close>

lemma z_string_min_ok: "z_string_min 1 v = Some s \<Longrightarrow> v = JStr s \<and> s \<noteq> []"
  by (cases v) (auto simp: z_string_min_def split: if_splits)

lemma parse_items_strings_ok:
  "parse_items (z_string_min 1) xs = Some ys \<Longrightarrow>
     length ys = length xs \<and> (\<forall>y \<in> set ys. y \<noteq> [])"
proof (induction xs arbitrary: ys)
  case Nil
  then show ?case by simp
next
  case (Cons x xs)
  from Cons.prems obtain a as where a: "z_string_min 1 x = Some a"
    "parse_items (z_string_min 1) xs = Some as" "ys = a # as"
    by (auto split: option.splits)
  from a(1) have "a \<noteq> []" using z_string_min_ok by blast
  with a Cons.IH show ?case by auto
qed

lemma z_array_ok:
  "z_array_min_max (z_string_min 1) 3 5 v = Some ys \<Longrightarrow>
     3 \<le> length ys \<and> length ys \<le> 5 \<and> (\<forall>y \<in> set ys. y \<noteq> [])"
proof (cases v)
  case (JArr xs)
  assume "z_array_min_max (z_string_min 1) 3 5 v = Some ys"
  with JArr have "3 \<le> length xs" "length xs \<le> 5" "parse_items (z_string_min 1) xs = Some ys"
    by (auto simp: z_array_min_max_def split: if_splits)
  then show ?thesis using parse_items_strings_ok by fastforce
qed (auto simp: z_array_min_max_def)

lemma z_number_ok:
  "z_number_int_min_max 1 10 v = Some n \<Longrightarrow> \<exists>k \<in> {1..10::int}. n = Finite (of_int k)"
proof (cases v)
  case (JNum x)
  assume "z_number_int_min_max 1 10 v = Some n"
  with JNum have f: "is_integer x" "\<not> num_lt x (Finite 1)" "\<not> num_lt (Finite 10) x" "n = x"
    by (auto simp: z_number_int_min_max_def split: if_splits)
  then obtain q where q: "x = Finite q" "q = of_int \<lfloor>q\<rfloor>" by (cases x) auto
  with f have "1 \<le> q" "q \<le> 10" by auto
  with q have "1 \<le> \<lfloor>q\<rfloor>" "\<lfloor>q\<rfloor> \<le> 10" by linarith+
  then have "\<lfloor>q\<rfloor> \<in> {1..10}" by simp
  with q f show ?thesis by metis
qed (auto simp: z_number_int_min_max_def)

lemma goalSchema_ok: "goalSchema v = Some g \<Longrightarrow> valid_goal g"
proof (cases v)
  case (JObj kvs)
  assume "goalSchema v = Some g"
  with JObj obtain a b c where
    a: "z_string_min 1 (get (js ''refined_goal'') v) = Some a" and
    b: "z_array_min_max (z_string_min 1) 3 5 (get (js ''key_results'') v) = Some b" and
    c: "z_number_int_min_max 1 10 (get (js ''confidence_score'') v) = Some c" and
    g: "g = \<lparr>refined_goal = a, key_results = b, confidence_score = c\<rparr>"
    by (auto simp: goalSchema_def simp del: get.simps One_nat_def split: option.splits)
  from a have "a \<noteq> []" using z_string_min_ok by blast
  moreover note z_array_ok[OF b] z_number_ok[OF c]
  ultimately show ?thesis using g by (auto simp: valid_goal_def)
qed (auto simp: goalSchema_def)

lemma goalSchema_parse_Inr: "goalSchema_parse w v = Inr g \<longleftrightarrow> goalSchema v = Some g"
  by (auto simp: goalSchema_parse_def split: option.splits)


section \<open>The ways through \<open>refineGoal\<close>\<close>

lemma refineGoal_try_cases:
  "refineGoal_try w s = (r, t) \<Longrightarrow>
     (\<exists>e. r = Failed e) \<or>
     (\<exists>resp v g. fst (callGeminiAPIWithRetry w 3) = Inr resp \<and> parseResponse w resp = Inr v
        \<and> goalSchema_parse w v = Inr g
        \<and> (if num_lt (confidence_score g) (Finite 4)
            then r = Rejected (js ''Input does not appear to be a valid goal.'')
            else r = Accepted g \<and> sink w 0 = None))"
  by (auto simp: refineGoal_try_def logAICall_def Let_def
           split: prod.splits sum.splits if_splits option.splits)

lemma refineGoal_string:
  "\<not> no_input input \<Longrightarrow> \<exists>s. input = JStr s \<and> trim s \<noteq> []"
  by (cases input) (auto simp: no_input_def)

lemma refineGoal_not_failed:
  "\<not> no_input (JStr s) \<Longrightarrow> \<forall>e. fst (refineGoal w (JStr s)) \<noteq> Failed e \<Longrightarrow>
     refineGoal w (JStr s) = refineGoal_try w s"
  by (auto simp: refineGoal_def logAICall_def split: prod.splits outcome.splits option.splits)

lemma handleEmptyInput_Accepted:
  "fst (handleEmptyInput w) = Accepted g \<Longrightarrow> g = no_goal_provided"
  by (auto simp: handleEmptyInput_def logAICall_def no_goal_provided_def Let_def
           split: option.splits)

lemma refineGoal_no_input: "no_input input \<Longrightarrow> refineGoal w input = handleEmptyInput w"
  by (simp add: refineGoal_def)

lemma refineGoal_Accepted:
  assumes "\<not> no_input input" "fst (refineGoal w input) = Accepted g"
  shows "\<exists>v. goalSchema_parse w v = Inr g \<and> \<not> num_lt (confidence_score g) (Finite 4)"
proof -
  from assms(1) obtain s where s: "input = JStr s" using refineGoal_string by blast
  from assms s have nf: "\<forall>e. fst (refineGoal w (JStr s)) \<noteq> Failed e" by simp
  from assms(1) s have "refineGoal w (JStr s) = refineGoal_try w s"
    using refineGoal_not_failed nf by blast
  with assms(2) s have "fst (refineGoal_try w s) = Accepted g" by simp
  then obtain t where "refineGoal_try w s = (Accepted g, t)"
    by (cases "refineGoal_try w s") auto
  from refineGoal_try_cases[OF this] show ?thesis by (auto split: if_splits)
qed

lemma trim_Nil [simp]: "trim [] = []" by (simp add: trim_def)

lemma no_input_iff: "no_input input \<longleftrightarrow> absent_or_blank input"
  by (cases input) (auto simp: no_input_def absent_or_blank_def)

lemma trim_spaces: "\<forall>c \<in> set s. is_space c \<Longrightarrow> trim s = []"
proof -
  assume "\<forall>c \<in> set s. is_space c"
  then have d: "dropWhile is_space s = []" by (induction s) auto
  show ?thesis unfolding trim_def d by simp
qed

lemma handleEmptyInput_eq:
  "handleEmptyInput w =
     (case sink w 0 of None \<Rightarrow> Accepted no_goal_provided | Some m \<Rightarrow> Failed (TelemetryFailed m),
      [LogAICall empty_input_record])"
  by (simp add: handleEmptyInput_def logAICall_def Let_def no_goal_provided_def
        empty_input_record_def split: option.splits)

lemma refineGoal_rejected:
  assumes "\<not> no_input (JStr s)" "callGeminiAPIWithRetry w 3 = (Inr resp, t)"
    "parseResponse w resp = Inr v" "goalSchema_parse w v = Inr g"
    "num_lt (confidence_score g) (Finite 4)"
  shows "refineGoal w (JStr s) = (Rejected (js ''Input does not appear to be a valid goal.''), t)"
  using assms by (simp add: refineGoal_def refineGoal_try_def)

lemma refineGoal_accepted:
  assumes "\<not> no_input (JStr s)" "callGeminiAPIWithRetry w 3 = (Inr resp, t)"
    "parseResponse w resp = Inr v" "goalSchema_parse w v = Inr g"
    "\<not> num_lt (confidence_score g) (Finite 4)" "sink w 0 = None"
  shows "refineGoal w (JStr s) =
     (Accepted g,
      t @ [LogAICall \<lparr>userInput = s, aiOutput = Some g,
                       promptTokens = estimateTokens (buildPrompt s),
                       completionTokens = estimateTokens (JSON_stringify w g),
                       model = gemini_model, success = True, errorMessage = None\<rparr>])"
  using assms by (simp add: refineGoal_def refineGoal_try_def logAICall_def)

lemma refineGoal_sink_failed:
  assumes "\<not> no_input (JStr s)" "callGeminiAPIWithRetry w 3 = (Inr resp, t)"
    "parseResponse w resp = Inr v" "goalSchema_parse w v = Inr g"
    "\<not> num_lt (confidence_score g) (Finite 4)" "sink w 0 = Some m"
  shows "\<exists>e. fst (refineGoal w (JStr s)) = Failed e"
  using assms by (simp add: refineGoal_def refineGoal_try_def logAICall_def split: option.splits)

lemma not_valid_no_goal: "\<not> valid_goal no_goal_provided"
  by (simp add: valid_goal_def no_goal_provided_def)

lemma refineGoal_Rejected:
  assumes "fst (refineGoal w input) = Rejected m"
  shows "\<not> no_input input \<and> m = js ''Input does not appear to be a valid goal.''"
proof (cases "no_input input")
  case True
  with assms show ?thesis
    by (simp add: refineGoal_no_input handleEmptyInput_eq split: option.splits)
next
  case False
  then obtain s where s: "input = JStr s" using refineGoal_string by blast
  from assms s have nf: "\<forall>e. fst (refineGoal w (JStr s)) \<noteq> Failed e" by simp
  from False s have "refineGoal w (JStr s) = refineGoal_try w s"
    using refineGoal_not_failed nf by blast
  with assms s obtain t where "refineGoal_try w s = (Rejected m, t)"
    by (cases "refineGoal_try w s") auto
  from refineGoal_try_cases[OF this] False show ?thesis by (auto split: if_splits)
qed

section \<open>The gateway\<close>

lemma callGeminiAPI_no_key:
  "no_apiKey w \<Longrightarrow> callGeminiAPI w n = (Inl (FailedToCall ApiKeyNotSet), [])"
  by (simp add: callGeminiAPI_def)

lemma callGeminiAPI_trace: "\<not> no_apiKey w \<Longrightarrow> snd (callGeminiAPI w n) = [Fetch]"
  by (simp add: callGeminiAPI_def Let_def split: fetch_result.splits body.splits)

lemma callGeminiAPI_fails_iff:
  "\<not> no_apiKey w \<Longrightarrow> attempt_fails w n \<longleftrightarrow> (\<exists>e. fst (callGeminiAPI w n) = Inl e)"
  by (simp add: callGeminiAPI_def attempt_fails_def Let_def split: fetch_result.splits body.splits)

lemma retry_loop_3_3:
  "retry_loop w 3 3 = (case callGeminiAPI w 3 of (r, t) \<Rightarrow> (r, Attempt 3 # t))"
  by (subst retry_loop.simps) (simp del: One_nat_def split: prod.splits sum.splits)

lemma retry_loop_3_2:
  "retry_loop w 3 2 =
     (case callGeminiAPI w 2 of
        (Inr d, t) \<Rightarrow> (Inr d, Attempt 2 # t)
      | (Inl e, t) \<Rightarrow> (case retry_loop w 3 3 of (r, t') \<Rightarrow> (r, Attempt 2 # t @ Delay 4000 # t')))"
  by (subst retry_loop.simps) (simp del: One_nat_def split: prod.splits sum.splits)

lemma retry_loop_3_1:
  "retry_loop w 3 1 =
     (case callGeminiAPI w 1 of
        (Inr d, t) \<Rightarrow> (Inr d, Attempt 1 # t)
      | (Inl e, t) \<Rightarrow> (case retry_loop w 3 2 of (r, t') \<Rightarrow> (r, Attempt 1 # t @ Delay 4000 # t')))"
  by (subst retry_loop.simps) (simp del: One_nat_def split: prod.splits sum.splits)

lemma callGeminiAPIWithRetry_3:
  "callGeminiAPIWithRetry w 3 =
     (case callGeminiAPI w 1 of
        (Inr d, t1) \<Rightarrow> (Inr d, Attempt 1 # t1)
      | (Inl e1, t1) \<Rightarrow>
          (case callGeminiAPI w 2 of
             (Inr d, t2) \<Rightarrow> (Inr d, Attempt 1 # t1 @ Delay 4000 # Attempt 2 # t2)
           | (Inl e2, t2) \<Rightarrow>
               (case callGeminiAPI w 3 of
                  (r, t3) \<Rightarrow>
                    (r, Attempt 1 # t1 @ Delay 4000 # Attempt 2 # t2 @ Delay 4000 # Attempt 3 # t3))))"
  by (simp del: One_nat_def
        add: callGeminiAPIWithRetry_def retry_loop_3_1 retry_loop_3_2 retry_loop_3_3
        split: prod.splits sum.splits)

lemma log_calls_Cons [simp]:
  "log_calls (x # xs) = (if is_log x then Suc (log_calls xs) else log_calls xs)"
  by (simp add: log_calls_def)

lemma log_calls_Nil [simp]: "log_calls [] = 0"
  by (simp add: log_calls_def)

lemma log_calls_append [simp]: "log_calls (xs @ ys) = log_calls xs + log_calls ys"
  by (simp add: log_calls_def)

lemma callGeminiAPI_no_log: "callGeminiAPI w n = (r, t) \<Longrightarrow> log_calls t = 0"
  by (auto simp: callGeminiAPI_def Let_def split: fetch_result.splits body.splits if_splits)

lemma callGeminiAPIWithRetry_no_log:
  assumes "callGeminiAPIWithRetry w 3 = (r, t)"
  shows "log_calls t = 0"
proof -
  obtain r1 t1 where a1: "callGeminiAPI w 1 = (r1, t1)" by fastforce
  obtain r2 t2 where a2: "callGeminiAPI w 2 = (r2, t2)" by fastforce
  obtain r3 t3 where a3: "callGeminiAPI w 3 = (r3, t3)" by fastforce
  note n = callGeminiAPI_no_log[OF a1] callGeminiAPI_no_log[OF a2] callGeminiAPI_no_log[OF a3]
  from assms a1 a2 a3 n show ?thesis
    by (auto simp: callGeminiAPIWithRetry_3 split: sum.splits)
qed

lemma refineGoal_gateway_failed:
  assumes "\<not> no_input (JStr s)" "callGeminiAPIWithRetry w 3 = (Inl e, t)"
  shows "refineGoal w (JStr s) =
     (case sink w 0 of None \<Rightarrow> Failed e | Some m \<Rightarrow> Failed (TelemetryFailed m),
      t @ [LogAICall \<lparr>userInput = s, aiOutput = None, promptTokens = 0, completionTokens = 0,
                       model = gemini_model, success = False, errorMessage = Some e\<rparr>])"
  using assms callGeminiAPIWithRetry_no_log[OF assms(2)]
  by (simp add: refineGoal_def refineGoal_try_def logAICall_def split: option.splits)

lemma refineGoal_parse_failed:
  assumes "\<not> no_input (JStr s)" "callGeminiAPIWithRetry w 3 = (Inr resp, t)"
    "parseResponse w resp = Inl e"
  shows "refineGoal w (JStr s) =
     (case sink w 0 of None \<Rightarrow> Failed e | Some m \<Rightarrow> Failed (TelemetryFailed m),
      t @ [LogAICall \<lparr>userInput = s, aiOutput = None, promptTokens = 0, completionTokens = 0,
                       model = gemini_model, success = False, errorMessage = Some e\<rparr>])"
  using assms callGeminiAPIWithRetry_no_log[OF assms(2)]
  by (simp add: refineGoal_def refineGoal_try_def logAICall_def split: option.splits)


section \<open>The schema rejects a value exactly when a constraint is violated\<close>













section \<open>What the regular expression captures\<close>

lemma fence_eq: "js ''```'' = [0x60, 0x60, 0x60]" by (simp add: js_def)
lemma json_eq: "js ''json'' = [0x6A, 0x73, 0x6F, 0x6E]" by (simp add: js_def)
lemma not_space_backtick: "\<not> is_space 0x60" by (simp add: is_space_def)
lemma space_newline: "is_space 0x0A" by (simp add: is_space_def)

lemma closing_fence:
  "star_greedy is_space (lit (js ''```'') (\<lambda>_. Some g)) s =
     (if prefix (js ''```'') (dropWhile is_space s) then Some g else None)"
proof (induction s)
  case Nil
  then show ?case by (simp add: lit_def)
next
  case (Cons c cs)
  show ?case
  proof (cases "is_space c")
    case True
    then have "\<not> prefix (js ''```'') (c # cs)"
      using not_space_backtick by (auto simp: fence_eq)
    with True Cons show ?thesis by (simp add: lit_def)
  next
    case False
    then show ?thesis by (simp add: lit_def)
  qed
qed

lemma closing_fence_fun:
  "(\<lambda>g. star_greedy is_space (lit (js ''```'') (\<lambda>_. Some g))) =
     (\<lambda>g s. if prefix (js ''```'') (dropWhile is_space s) then Some g else None)"
  by (intro ext) (rule closing_fence)

lemma lazy_group_aux:
  "star_lazy_group
      (\<lambda>g s. if prefix (js ''```'') (dropWhile is_space s) then Some g else None) g s =
     map_option ((@) g) (until_close s)"
proof (induction s arbitrary: g)
  case Nil
  then show ?case by (simp add: fence_eq)
next
  case (Cons c cs)
  show ?case
    by (simp add: Cons.IH option.map_comp comp_def del: dropWhile.simps)
qed

lemma lazy_group:
  "star_lazy_group (\<lambda>g. star_greedy is_space (lit (js ''```'') (\<lambda>_. Some g))) g s =
     map_option ((@) g) (until_close s)"
  unfolding closing_fence_fun by (rule lazy_group_aux)

lemma greedy_longest:
  "k (dropWhile p s) = Some r \<Longrightarrow> star_greedy p k s = Some r"
  by (induction s) auto

lemma prefix_fence_append:
  "x \<noteq> [] \<Longrightarrow> prefix (js ''```'') (x @ js ''```'') \<Longrightarrow> prefix (js ''```'') (x @ [0x60, 0x60])"
proof -
  assume a: "x \<noteq> []" "prefix (js ''```'') (x @ js ''```'')"
  have "prefix (x @ [0x60, 0x60]) (x @ js ''```'')" by (simp add: fence_eq)
  moreover have "length (js ''```'') \<le> length (x @ [0x60, 0x60])"
    using a(1) by (cases x) (simp_all add: fence_eq)
  ultimately show ?thesis using a(2) prefix_length_prefix by blast
qed

lemma has_fence_prefix: "prefix (js ''```'') s \<Longrightarrow> has_fence s"
  by (cases s) (auto simp: fence_eq)

lemma has_fence_Cons: "has_fence cs \<Longrightarrow> has_fence (c # cs)"
  by simp

lemma not_closing:
  "y \<noteq> [] \<Longrightarrow> \<not> is_space (last y) \<Longrightarrow> \<not> has_fence (y @ w @ [0x60, 0x60]) \<Longrightarrow>
     \<not> prefix (js ''```'') (dropWhile is_space (y @ w @ js ''```''))"
proof (induction y)
  case Nil
  then show ?case by simp
next
  case (Cons c cs)
  show ?case
  proof (cases "is_space c")
    case True
    with Cons.prems have "cs \<noteq> []" by auto
    moreover from this Cons.prems have "\<not> is_space (last cs)" by simp
    moreover from Cons.prems have "\<not> has_fence (cs @ w @ [0x60, 0x60])" by simp
    ultimately show ?thesis using Cons.IH True by simp
  next
    case False
    have "\<not> prefix (js ''```'') ((c # cs @ w) @ js ''```'')"
    proof
      assume "prefix (js ''```'') ((c # cs @ w) @ js ''```'')"
      then have "prefix (js ''```'') ((c # cs @ w) @ [0x60, 0x60])"
        using prefix_fence_append[of "c # cs @ w"] by simp
      then have "has_fence ((c # cs) @ w @ [0x60, 0x60])"
        using has_fence_prefix by simp
      with Cons.prems show False by simp
    qed
    with False show ?thesis by simp
  qed
qed

lemma until_close_fence:
  "y = [] \<or> \<not> is_space (last y) \<Longrightarrow> \<forall>c \<in> set w. is_space c \<Longrightarrow>
     \<not> has_fence (y @ w @ [0x60, 0x60]) \<Longrightarrow> until_close (y @ w @ js ''```'') = Some y"
proof (induction y)
  case Nil
  have "dropWhile is_space (w @ js ''```'') = js ''```''"
    using Nil.prems(2) not_space_backtick by (induction w) (auto simp: fence_eq)
  then show ?case by (cases "w @ js ''```''") (auto simp: fence_eq)
next
  case (Cons c cs)
  from Cons.prems have l: "\<not> is_space (last (c # cs))" by simp
  have nc: "\<not> prefix (js ''```'') (dropWhile is_space ((c # cs) @ w @ js ''```''))"
    using not_closing[OF _ l Cons.prems(3)] by simp
  have "cs = [] \<or> \<not> is_space (last cs)" using l by auto
  moreover have "\<not> has_fence (cs @ w @ [0x60, 0x60])" using Cons.prems(3) by simp
  ultimately have "until_close (cs @ w @ js ''```'') = Some cs"
    using Cons.IH Cons.prems(2) by blast
  with nc show ?case by (simp del: dropWhile.simps)
qed


lemma no_fence_newline:
  "\<not> has_fence s \<Longrightarrow> \<not> has_fence (s @ [0x0A, 0x60, 0x60])"
proof (induction s)
  case Nil
  then show ?case by (simp add: fence_eq)
next
  case (Cons c cs)
  then have ih: "\<not> has_fence (cs @ [0x0A, 0x60, 0x60])" by simp
  have "\<not> prefix (js ''```'') (c # cs @ [0x0A, 0x60, 0x60])"
  proof (cases cs)
    case Nil
    then show ?thesis by (simp add: fence_eq)
  next
    case (Cons d ds)
    show ?thesis
    proof (cases ds)
      case Nil
      with Cons show ?thesis by (simp add: fence_eq)
    next
      case (Cons e es)
      with \<open>cs = d # ds\<close> Cons.prems show ?thesis by (simp add: fence_eq)
    qed
  qed
  with ih show ?case by simp
qed

lemma no_fence_dropWhile: "\<not> has_fence s \<Longrightarrow> \<not> has_fence (dropWhile p s)"
  by (induction s) auto

lemma dropWhile_space_backtick:
  "dropWhile is_space (s @ 0x60 # t) = dropWhile is_space s @ 0x60 # t"
  using not_space_backtick by (induction s) auto

lemma no_fence_no_match: "\<not> has_fence s \<Longrightarrow> match_fence s = None"
proof (induction s)
  case Nil
  then show ?case by (simp add: fence_at_def lit_def fence_eq)
next
  case (Cons c cs)
  then have "\<not> prefix (js ''```'') (c # cs)" "match_fence cs = None" by simp_all
  then show ?case by (simp add: fence_at_def lit_def)
qed

lemma rev_drop_take:
  "rev (dropWhile p r) @ rev (takeWhile p r) = rev r"
  by (metis rev_append takeWhile_dropWhile_id)

lemma trim_parts:
  "dropWhile is_space s = trim s @ rev (takeWhile is_space (rev (dropWhile is_space s)))"
  unfolding trim_def using rev_drop_take[of is_space "rev (dropWhile is_space s)"] by simp

lemma trim_last: "trim s = [] \<or> \<not> is_space (last (trim s))"
proof (cases "dropWhile is_space (rev (dropWhile is_space s))")
  case Nil
  then show ?thesis by (simp add: trim_def)
next
  case (Cons c cs)
  then have "\<not> is_space (hd (dropWhile is_space (rev (dropWhile is_space s))))"
    using hd_dropWhile[of is_space "rev (dropWhile is_space s)"] by simp
  with Cons show ?thesis by (simp add: trim_def)
qed

lemma trim_hd: "trim s = [] \<or> \<not> is_space (hd (trim s))"
proof (cases "trim s")
  case Nil
  then show ?thesis by simp
next
  case (Cons c cs)
  define w where "w = rev (takeWhile is_space (rev (dropWhile is_space s)))"
  from trim_parts[of s] Cons have e: "dropWhile is_space s = c # (cs @ w)"
    by (simp add: w_def)
  then have "dropWhile is_space s \<noteq> []" by simp
  then have "\<not> is_space (hd (dropWhile is_space s))" by (rule hd_dropWhile)
  with e have "\<not> is_space c" by simp
  with Cons show ?thesis by simp
qed

lemma dropWhile_id: "xs = [] \<or> \<not> p (hd xs) \<Longrightarrow> dropWhile p xs = xs"
  by (cases xs) auto

lemma trim_fixed:
  "y = [] \<or> \<not> is_space (hd y) \<Longrightarrow> y = [] \<or> \<not> is_space (last y) \<Longrightarrow> trim y = y"
proof -
  assume a: "y = [] \<or> \<not> is_space (hd y)" and b: "y = [] \<or> \<not> is_space (last y)"
  from a have 1: "dropWhile is_space y = y" by (rule dropWhile_id)
  from b have "rev y = [] \<or> \<not> is_space (hd (rev y))" by (cases "y = []") (simp_all add: hd_rev)
  then have 2: "dropWhile is_space (rev y) = rev y" by (rule dropWhile_id)
  show ?thesis unfolding trim_def 1 2 by simp
qed

lemma trim_trim: "trim (trim s) = trim s"
  using trim_fixed trim_hd trim_last by blast

lemma all_space_dropWhile: "\<forall>c \<in> set s. is_space c \<Longrightarrow> dropWhile is_space s = []"
  by (induction s) auto

lemma trim_space_Cons: "is_space a \<Longrightarrow> trim (a # s) = trim s"
  by (simp add: trim_def)

lemma trim_space_snoc: "is_space a \<Longrightarrow> trim (s @ [a]) = trim s"
proof (cases "\<forall>c \<in> set s. is_space c")
  case True
  assume "is_space a"
  with True have "\<forall>c \<in> set (s @ [a]). is_space c" by simp
  then have 1: "dropWhile is_space (s @ [a]) = []" by (rule all_space_dropWhile)
  from True have 2: "dropWhile is_space s = []" by (rule all_space_dropWhile)
  show ?thesis unfolding trim_def 1 2 by simp
next
  case False
  assume a: "is_space a"
  from False obtain x where "x \<in> set s" "\<not> is_space x" by blast
  then have "dropWhile is_space (s @ [a]) = dropWhile is_space s @ [a]"
    by (rule dropWhile_append1)
  with a show ?thesis by (simp add: trim_def)
qed

lemma fence_at_fenced:
  assumes "\<not> has_fence content"
  shows "fence_at (fenced tagged content) = Some (trim content)"
proof -
  define s where "s = 0x0A # content @ [0x0A]"
  define x where "x = dropWhile is_space s"
  define w where "w = rev (takeWhile is_space (rev x))"
  define rest where "rest = s @ js ''```''"
  have t: "trim s = trim content"
    unfolding s_def
    using trim_space_Cons[OF space_newline, of "content @ [0x0A]"]
          trim_space_snoc[OF space_newline, of content] by simp
  have x: "x = trim content @ w" using trim_parts[of s] t by (simp add: x_def w_def)
  have w: "\<forall>c \<in> set w. is_space c" by (auto simp: w_def dest: set_takeWhileD)
  have "x = dropWhile is_space (content @ [0x0A])"
    by (simp add: x_def s_def space_newline)
  then have "x @ [0x60, 0x60] = dropWhile is_space ((content @ [0x0A]) @ 0x60 # [0x60])"
    by (simp only: dropWhile_space_backtick)
  then have "x @ [0x60, 0x60] = dropWhile is_space (content @ [0x0A, 0x60, 0x60])" by simp
  moreover have "\<not> has_fence (dropWhile is_space (content @ [0x0A, 0x60, 0x60]))"
    using assms no_fence_newline no_fence_dropWhile by blast
  ultimately have "\<not> has_fence (x @ [0x60, 0x60])" by simp
  then have nf: "\<not> has_fence (trim content @ w @ [0x60, 0x60])" by (simp add: x)
  have "until_close (trim content @ w @ js ''```'') = Some (trim content)"
    using until_close_fence[OF trim_last w nf] .
  then have u: "until_close (x @ js ''```'') = Some (trim content)" by (simp add: x)
  have "dropWhile is_space (s @ 0x60 # [0x60, 0x60]) = x @ 0x60 # [0x60, 0x60]"
    unfolding x_def by (rule dropWhile_space_backtick)
  then have d: "dropWhile is_space rest = x @ js ''```''"
    by (simp add: rest_def fence_eq)
  have "star_lazy_group (\<lambda>g. star_greedy is_space (lit (js ''```'') (\<lambda>_. Some g))) []
          (dropWhile is_space rest) = Some (trim content)"
    unfolding d lazy_group using u by simp
  then have g: "star_greedy is_space
          (star_lazy_group (\<lambda>g. star_greedy is_space (lit (js ''```'') (\<lambda>_. Some g))) [])
          rest = Some (trim content)"
    by (rule greedy_longest)
  show ?thesis
  proof (cases tagged)
    case True
    then have "fenced tagged content = js ''```'' @ js ''json'' @ rest"
      by (simp add: fenced_def rest_def s_def)
    then show ?thesis using g by (simp add: fence_at_def lit_def optional_def)
  next
    case False
    then have f: "fenced tagged content = js ''```'' @ rest"
      by (simp add: fenced_def rest_def s_def)
    have "\<not> prefix (js ''json'') rest" by (simp add: json_eq rest_def s_def)
    then show ?thesis using g unfolding f by (simp add: fence_at_def lit_def optional_def)
  qed
qed

lemma match_fence_fenced:
  "\<not> has_fence content \<Longrightarrow> match_fence (fenced tagged content) = Some (trim content)"
  using fence_at_fenced[of content tagged]
  by (cases "fenced tagged content") (auto simp: fenced_def fence_eq)

lemma textContent_envelope: "textContent (envelope t) = JStr t"
  by (simp add: textContent_def envelope_def opt_get_def opt_get0_def js_def)

lemma parseResponse_envelope:
  "t \<noteq> [] \<Longrightarrow> parseResponse w (envelope t) =
     (case JSON_parse w (trim (case match_fence t of Some g \<Rightarrow> g | None \<Rightarrow> t)) of
        Inl m \<Rightarrow> Inl (FailedToParse (SyntaxError m)) | Inr parsed \<Rightarrow> Inr parsed)"
  by (simp add: parseResponse_def textContent_envelope Let_def) (simp add: envelope_def)

text \<open>The definitions that a run on a sample world unfolds.\<close>

lemmas run_defs =
  refineGoal_def no_input_def trim_def is_space_def js_def refineGoal_try_def
  callGeminiAPIWithRetry_3 callGeminiAPI_def no_apiKey_def apiKey_def sample_world_def
  response_ok_def parseResponse_def envelope_def textContent_def opt_get_def opt_get0_def
  sample_text_def fence_at_def lit_def optional_def sample_value_def goalSchema_parse_def
  goalSchema_def z_string_min_def z_array_min_max_def z_number_int_min_max_def logAICall_def
  sample_goal_def handleEmptyInput_def Let_def

section \<open>Returned goals satisfy the schema, the goal for an empty input apart\<close>

text \<open>
  C1. A goal that \<open>goalSchema.parse\<close> lets through satisfies every constraint of the
  schema: the score is an integer from 1 to 10, there are 3 to 5 key results, and the
  goal and each key result are non-empty. No value that misses one of them passes. A goal
  that \<open>refineGoal\<close> returns is such a goal when the input is not empty; when the input
  is empty, it is the goal \<open>No goal provided\<close> of \<open>handleEmptyInput\<close>, which never meets
  the validator.
\<close>

theorem refineGoal_goal_valid_or_sentinel:
  "(goalSchema_parse w0 v = Inr g \<longrightarrow> valid_goal g)
   \<and> (fst (refineGoal w input) = Accepted g' \<longrightarrow>
        (\<not> no_input input \<and> valid_goal g') \<or> (no_input input \<and> g' = no_goal_provided))"
proof -
  have a: "valid_goal g" if "goalSchema_parse w0 v = Inr g"
    using that goalSchema_ok goalSchema_parse_Inr by blast
  have b: "(\<not> no_input input \<and> valid_goal g') \<or> (no_input input \<and> g' = no_goal_provided)"
    if acc: "fst (refineGoal w input) = Accepted g'"
  proof (cases "no_input input")
    case True
    with acc have "g' = no_goal_provided"
      using handleEmptyInput_Accepted refineGoal_no_input by metis
    with True show ?thesis by simp
  next
    case False
    from refineGoal_Accepted[OF False acc] have "valid_goal g'"
      using goalSchema_ok goalSchema_parse_Inr by blast
    with False show ?thesis by simp
  qed
  from a b show ?thesis by blast
qed

theorem refineGoal_goal_valid_or_sentinel_witness:
  "goalSchema_parse (sample_world (sample_text (js ''7'')) (sample_text (js ''7''))
                        (sample_value (Finite 7)) None) (sample_value (Finite 7))
       = Inr (sample_goal (Finite 7))
   \<and> fst (refineGoal (sample_world (sample_text (js ''7'')) (sample_text (js ''7''))
                        (sample_value (Finite 7)) None) (JStr (js ''run a bit'')))
       = Accepted (sample_goal (Finite 7))
   \<and> \<not> no_input (JStr (js ''run a bit''))
   \<and> sample_goal (Finite 7) \<noteq> no_goal_provided
   \<and> valid_goal (sample_goal (Finite 7))"
proof -
  let ?w = "sample_world (sample_text (js ''7'')) (sample_text (js ''7''))
              (sample_value (Finite 7)) None"
  have h1: "goalSchema_parse ?w (sample_value (Finite 7)) = Inr (sample_goal (Finite 7))"
    by (simp add: run_defs)
  have h2: "\<not> no_input (JStr (js ''run a bit''))"
    by (simp add: no_input_def trim_def is_space_def js_def)
  have h3: "fst (refineGoal ?w (JStr (js ''run a bit''))) = Accepted (sample_goal (Finite 7))"
    by (simp add: run_defs)
  have h4: "sample_goal (Finite 7) \<noteq> no_goal_provided"
    by (simp add: sample_goal_def no_goal_provided_def)
  from refineGoal_goal_valid_or_sentinel
         [where ?w0.0 = ?w and v = "sample_value (Finite 7)" and g = "sample_goal (Finite 7)"
            and w = ?w and input = "JStr (js ''run a bit'')" and g' = "sample_goal (Finite 7)"]
       h1 h2 h3
  have "valid_goal (sample_goal (Finite 7))" by blast
  with h1 h2 h3 h4 show ?thesis by blast
qed

text \<open>
  As the sentence stands in the spec, every goal that the pipeline returns satisfies
  the constraints. For an input of three spaces \<open>refineGoal\<close> returns a goal with score 0
  and no key results.
\<close>

theorem blank_input_goal_breaks_constraints:
  "fst (refineGoal (sample_world (sample_text (js ''7'')) (sample_text (js ''7''))
                        (sample_value (Finite 7)) None) (JStr (js ''   '')))
     = Accepted no_goal_provided
   \<and> confidence_score no_goal_provided = Finite 0
   \<and> key_results no_goal_provided = []
   \<and> \<not> valid_goal no_goal_provided"
proof -
  have "no_input (JStr (js ''   ''))"
    by (simp add: no_input_def trim_def is_space_def js_def)
  then have "fst (refineGoal (sample_world (sample_text (js ''7'')) (sample_text (js ''7''))
                        (sample_value (Finite 7)) None) (JStr (js ''   '')))
     = Accepted no_goal_provided"
    by (simp add: refineGoal_no_input handleEmptyInput_eq sample_world_def)
  then show ?thesis using not_valid_no_goal by (simp add: no_goal_provided_def)
qed

section \<open>The guardrail\<close>

text \<open>
  C2. For a response that the gateway delivers, that parses and that satisfies the
  schema: when its score is below 4, \<open>refineGoal\<close> returns the object
  \<open>{error: "Input does not appear to be a valid goal."}\<close>, which holds no goal; when its
  score is 4 or more and the telemetry call succeeds, \<open>refineGoal\<close> returns the goal,
  and when the telemetry call throws, \<open>refineGoal\<close> throws. In particular a score of 3
  is rejected and a score of 4 is accepted when the telemetry call succeeds.
\<close>

theorem guardrail_at_score_4:
  assumes "\<not> no_input input" "fst (callGeminiAPIWithRetry w 3) = Inr resp"
    "parseResponse w resp = Inr v" "goalSchema_parse w v = Inr g"
  shows "(num_lt (confidence_score g) (Finite 4) \<longrightarrow>
            fst (refineGoal w input) = Rejected (js ''Input does not appear to be a valid goal.''))
       \<and> (\<not> num_lt (confidence_score g) (Finite 4) \<and> sink w 0 = None \<longrightarrow>
            fst (refineGoal w input) = Accepted g)
       \<and> (\<not> num_lt (confidence_score g) (Finite 4) \<and> sink w 0 \<noteq> None \<longrightarrow>
            (\<exists>e. fst (refineGoal w input) = Failed e))
       \<and> (confidence_score g = Finite 3 \<longrightarrow>
            fst (refineGoal w input) = Rejected (js ''Input does not appear to be a valid goal.''))
       \<and> (confidence_score g = Finite 4 \<and> sink w 0 = None \<longrightarrow>
            fst (refineGoal w input) = Accepted g)"
proof -
  from assms(1) obtain s where s: "input = JStr s" using refineGoal_string by blast
  obtain t where t: "callGeminiAPIWithRetry w 3 = (Inr resp, t)"
    using assms(2) by (cases "callGeminiAPIWithRetry w 3") auto
  note h = assms(1)[unfolded s] t assms(3,4)
  have a: "num_lt (confidence_score g) (Finite 4) \<Longrightarrow>
            fst (refineGoal w input) = Rejected (js ''Input does not appear to be a valid goal.'')"
    using refineGoal_rejected[OF h] s by simp
  have b: "\<not> num_lt (confidence_score g) (Finite 4) \<Longrightarrow> sink w 0 = None \<Longrightarrow>
            fst (refineGoal w input) = Accepted g"
    using refineGoal_accepted[OF h] s by simp
  have c: "\<not> num_lt (confidence_score g) (Finite 4) \<Longrightarrow> sink w 0 \<noteq> None \<Longrightarrow>
            \<exists>e. fst (refineGoal w input) = Failed e"
    using refineGoal_sink_failed[OF h] s by auto
  from a b c show ?thesis by auto
qed

theorem guardrail_at_score_4_witness:
  "\<not> no_input (JStr (js ''run a bit''))
   \<and> fst (callGeminiAPIWithRetry (sample_world (sample_text (js ''3'')) (sample_text (js ''3''))
                        (sample_value (Finite 3)) None) 3) = Inr (envelope (sample_text (js ''3'')))
   \<and> parseResponse (sample_world (sample_text (js ''3'')) (sample_text (js ''3''))
                        (sample_value (Finite 3)) None) (envelope (sample_text (js ''3'')))
        = Inr (sample_value (Finite 3))
   \<and> goalSchema_parse (sample_world (sample_text (js ''3'')) (sample_text (js ''3''))
                        (sample_value (Finite 3)) None)
        (sample_value (Finite 3)) = Inr (sample_goal (Finite 3))
   \<and> confidence_score (sample_goal (Finite 3)) = Finite 3
   \<and> fst (refineGoal (sample_world (sample_text (js ''3'')) (sample_text (js ''3''))
                        (sample_value (Finite 3)) None) (JStr (js ''run a bit'')))
        = Rejected (js ''Input does not appear to be a valid goal.'')
   \<and> fst (callGeminiAPIWithRetry (sample_world (sample_text (js ''4'')) (sample_text (js ''4''))
                        (sample_value (Finite 4)) None) 3) = Inr (envelope (sample_text (js ''4'')))
   \<and> parseResponse (sample_world (sample_text (js ''4'')) (sample_text (js ''4''))
                        (sample_value (Finite 4)) None) (envelope (sample_text (js ''4'')))
        = Inr (sample_value (Finite 4))
   \<and> goalSchema_parse (sample_world (sample_text (js ''4'')) (sample_text (js ''4''))
                        (sample_value (Finite 4)) None)
        (sample_value (Finite 4)) = Inr (sample_goal (Finite 4))
   \<and> confidence_score (sample_goal (Finite 4)) = Finite 4
   \<and> sink (sample_world (sample_text (js ''4'')) (sample_text (js ''4''))
                        (sample_value (Finite 4)) None) 0 = None
   \<and> fst (refineGoal (sample_world (sample_text (js ''4'')) (sample_text (js ''4''))
                        (sample_value (Finite 4)) None) (JStr (js ''run a bit'')))
        = Accepted (sample_goal (Finite 4))"
proof -
  let ?w = "sample_world (sample_text (js ''3'')) (sample_text (js ''3''))
                        (sample_value (Finite 3)) None"
  let ?w4 = "sample_world (sample_text (js ''4'')) (sample_text (js ''4''))
                        (sample_value (Finite 4)) None"
  have h1: "\<not> no_input (JStr (js ''run a bit''))"
    by (simp add: no_input_def trim_def is_space_def js_def)
  have h2: "fst (callGeminiAPIWithRetry ?w 3) = Inr (envelope (sample_text (js ''3'')))"
    by (simp add: callGeminiAPIWithRetry_3 callGeminiAPI_def no_apiKey_def apiKey_def
          sample_world_def response_ok_def js_def)
  have h3: "parseResponse ?w (envelope (sample_text (js ''3''))) = Inr (sample_value (Finite 3))"
    by (simp add: run_defs)
  have h4: "goalSchema_parse ?w (sample_value (Finite 3)) = Inr (sample_goal (Finite 3))"
    by (simp add: run_defs)
  have h5: "confidence_score (sample_goal (Finite 3)) = Finite 3"
    by (simp add: sample_goal_def)
  have k2: "fst (callGeminiAPIWithRetry ?w4 3) = Inr (envelope (sample_text (js ''4'')))"
    by (simp add: callGeminiAPIWithRetry_3 callGeminiAPI_def no_apiKey_def apiKey_def
          sample_world_def response_ok_def js_def)
  have k3: "parseResponse ?w4 (envelope (sample_text (js ''4''))) = Inr (sample_value (Finite 4))"
    by (simp add: run_defs)
  have k4: "goalSchema_parse ?w4 (sample_value (Finite 4)) = Inr (sample_goal (Finite 4))"
    by (simp add: run_defs)
  have k5: "confidence_score (sample_goal (Finite 4)) = Finite 4"
    by (simp add: sample_goal_def)
  have k6: "sink ?w4 0 = None" by (simp add: sample_world_def)
  from guardrail_at_score_4 [OF h1 h2 h3 h4] h5
  have r3: "fst (refineGoal ?w (JStr (js ''run a bit'')))
        = Rejected (js ''Input does not appear to be a valid goal.'')" by blast
  from guardrail_at_score_4 [OF h1 k2 k3 k4] k5 k6
  have r4: "fst (refineGoal ?w4 (JStr (js ''run a bit''))) = Accepted (sample_goal (Finite 4))"
    by blast
  from h1 h2 h3 h4 h5 k2 k3 k4 k5 k6 r3 r4 show ?thesis by blast
qed

text \<open>
  As the sentence stands in the spec, a schema-valid response with a score of at least
  4 always gives the goal. It does not when the telemetry call throws: the response
  below is schema-valid with score 4, and \<open>refineGoal\<close> throws the sink's error.
\<close>

theorem guardrail_at_score_4_telemetry_failure:
  "goalSchema_parse (sample_world (sample_text (js ''4'')) (sample_text (js ''4''))
                        (sample_value (Finite 4)) (Some (js ''insert failed'')))
     (sample_value (Finite 4)) = Inr (sample_goal (Finite 4))
   \<and> fst (refineGoal (sample_world (sample_text (js ''4'')) (sample_text (js ''4''))
                        (sample_value (Finite 4)) (Some (js ''insert failed'')))
             (JStr (js ''run a bit'')))
       = Failed (TelemetryFailed (js ''insert failed''))"
  by (simp add: run_defs)

section \<open>Telemetry of a rejected call\<close>

text \<open>
  C3. The spec has one telemetry record for every call with a non-empty input, with
  \<open>success\<close> true for a guardrail rejection. The guardrail returns before
  \<open>logAICall\<close> is reached: for a schema-valid response with score 3 the call returns the
  error object and its trace holds the one request and no \<open>LogAICall\<close>.
\<close>

theorem rejected_call_logs_no_telemetry:
  "goalSchema_parse (sample_world (sample_text (js ''3'')) (sample_text (js ''3''))
                        (sample_value (Finite 3)) None)
     (sample_value (Finite 3)) = Inr (sample_goal (Finite 3))
   \<and> refineGoal (sample_world (sample_text (js ''3'')) (sample_text (js ''3''))
                        (sample_value (Finite 3)) None) (JStr (js ''run a bit''))
     = (Rejected (js ''Input does not appear to be a valid goal.''), [Attempt 1, Fetch])
   \<and> log_calls [Attempt 1, Fetch] = 0"
  by (simp add: run_defs)

section \<open>A missing key\<close>

text \<open>
  C4. When no key is set, every attempt throws the configuration error before a
  request is sent, so no request is ever sent; the retry loop treats the error like any
  other: it makes all 3 attempts, waits 4000 ms twice, and then throws the error of the
  third attempt. \<open>refineGoal\<close> on a non-empty input then throws, with no request sent.
\<close>

theorem missing_key_retried_without_request:
  assumes "no_apiKey w"
  shows "callGeminiAPIWithRetry w 3 =
           (Inl (FailedToCall ApiKeyNotSet),
            [Attempt 1, Delay 4000, Attempt 2, Delay 4000, Attempt 3])
       \<and> (\<not> no_input input \<longrightarrow>
            (\<exists>e. fst (refineGoal w input) = Failed e) \<and> Fetch \<notin> set (snd (refineGoal w input)))"
proof -
  have g: "callGeminiAPIWithRetry w 3 =
           (Inl (FailedToCall ApiKeyNotSet),
            [Attempt 1, Delay 4000, Attempt 2, Delay 4000, Attempt 3])"
    by (simp add: callGeminiAPIWithRetry_3 callGeminiAPI_no_key[OF assms])
  have "(\<exists>e. fst (refineGoal w input) = Failed e) \<and> Fetch \<notin> set (snd (refineGoal w input))"
    if n: "\<not> no_input input"
  proof -
    from n obtain s where s: "input = JStr s" using refineGoal_string by blast
    from refineGoal_gateway_failed[OF n[unfolded s] g] s show ?thesis
      by (auto split: option.splits)
  qed
  with g show ?thesis by blast
qed

theorem missing_key_retried_without_request_witness:
  "no_apiKey keyless_world
   \<and> \<not> no_input (JStr (js ''run a bit''))
   \<and> refineGoal keyless_world (JStr (js ''run a bit'')) = 
       (Failed (FailedToCall ApiKeyNotSet),
        [Attempt 1, Delay 4000, Attempt 2, Delay 4000, Attempt 3,
         LogAICall \<lparr>userInput = js ''run a bit'', aiOutput = None, promptTokens = 0,
                     completionTokens = 0, model = gemini_model, success = False,
                     errorMessage = Some (FailedToCall ApiKeyNotSet)\<rparr>])"
proof -
  have h: "no_apiKey keyless_world" by (simp add: no_apiKey_def apiKey_def keyless_world_def)
  have h2: "\<not> no_input (JStr (js ''run a bit''))"
    by (simp add: no_input_def trim_def is_space_def js_def)
  have s: "sink keyless_world 0 = None" by (simp add: keyless_world_def)
  from missing_key_retried_without_request [OF h, of "JStr (js ''run a bit'')"]
  have g: "callGeminiAPIWithRetry keyless_world 3 =
           (Inl (FailedToCall ApiKeyNotSet),
            [Attempt 1, Delay 4000, Attempt 2, Delay 4000, Attempt 3])" by blast
  from refineGoal_gateway_failed[OF h2 g] s h h2 show ?thesis by simp
qed

text \<open>
  As the sentence stands in the spec, a missing key is not retried and causes no
  delay. With no key set the loop makes three attempts and waits twice.
\<close>

theorem missing_key_three_attempts_two_delays:
  "no_apiKey keyless_world
   \<and> snd (callGeminiAPIWithRetry keyless_world 3)
       = [Attempt 1, Delay 4000, Attempt 2, Delay 4000, Attempt 3]"
  by (simp add: callGeminiAPIWithRetry_3 callGeminiAPI_def no_apiKey_def apiKey_def
        keyless_world_def)

section \<open>Empty input\<close>

text \<open>
  C5. For an input that is absent, not a string, or empty after trimming (a string of
  white space is one), \<open>refineGoal\<close> never calls the gateway: its whole trace is the one
  telemetry call of \<open>handleEmptyInput\<close>. When that call succeeds, it returns the goal
  \<open>No goal provided\<close> with no key results and score 0; when that call throws,
  \<open>refineGoal\<close> throws the same error.
\<close>

theorem empty_input_short_circuits:
  assumes "absent_or_blank input"
  shows "snd (refineGoal w input) = [LogAICall empty_input_record]
       \<and> (sink w 0 = None \<longrightarrow> fst (refineGoal w input) = Accepted no_goal_provided)
       \<and> (\<forall>m. sink w 0 = Some m \<longrightarrow> fst (refineGoal w input) = Failed (TelemetryFailed m))
       \<and> ((\<forall>c \<in> set s. is_space c) \<longrightarrow> absent_or_blank (JStr s))"
  using assms
  by (simp add: no_input_iff refineGoal_no_input handleEmptyInput_eq trim_spaces
        absent_or_blank_def)

theorem empty_input_short_circuits_witness:
  "absent_or_blank JUndefined
   \<and> absent_or_blank (JStr (js ''   ''))
   \<and> sink (sample_world [] [] JNull None) 0 = None
   \<and> refineGoal (sample_world [] [] JNull None) (JStr (js ''   ''))
       = (Accepted no_goal_provided, [LogAICall empty_input_record])
   \<and> sink (sample_world [] [] JNull (Some (js ''insert failed''))) 0 = Some (js ''insert failed'')
   \<and> refineGoal (sample_world [] [] JNull (Some (js ''insert failed''))) JUndefined
       = (Failed (TelemetryFailed (js ''insert failed'')), [LogAICall empty_input_record])"
proof -
  have s: "\<forall>c \<in> set (js ''   ''). is_space c" by (simp add: is_space_def js_def)
  have u: "absent_or_blank JUndefined" by (simp add: absent_or_blank_def)
  from empty_input_short_circuits [OF u, of "sample_world [] [] JNull None" "js ''   ''"] s
  have h: "absent_or_blank (JStr (js ''   ''))" by blast
  have h2: "sink (sample_world [] [] JNull None) 0 = None" by (simp add: sample_world_def)
  have h3: "sink (sample_world [] [] JNull (Some (js ''insert failed''))) 0
              = Some (js ''insert failed'')"
    by (simp add: sample_world_def)
  from empty_input_short_circuits [OF h, of "sample_world [] [] JNull None"] h2
  have a: "refineGoal (sample_world [] [] JNull None) (JStr (js ''   ''))
       = (Accepted no_goal_provided, [LogAICall empty_input_record])"
    by (simp add: prod_eq_iff)
  from empty_input_short_circuits
         [OF u, of "sample_world [] [] JNull (Some (js ''insert failed''))"] h3
  have b: "refineGoal (sample_world [] [] JNull (Some (js ''insert failed''))) JUndefined
       = (Failed (TelemetryFailed (js ''insert failed'')), [LogAICall empty_input_record])"
    by (simp add: prod_eq_iff)
  from u h h2 h3 a b show ?thesis by blast
qed

text \<open>
  As the sentence stands in the spec, an empty input always gives that goal. It does
  not when the telemetry call throws: \<open>refineGoal\<close> then throws the sink's error.
\<close>

theorem empty_input_telemetry_failure:
  "absent_or_blank (JStr (js ''   ''))
   \<and> fst (refineGoal (sample_world (sample_text (js ''4'')) (sample_text (js ''4''))
                        (sample_value (Finite 4)) (Some (js ''insert failed'')))
             (JStr (js ''   '')))
       = Failed (TelemetryFailed (js ''insert failed''))"
  by (simp add: run_defs absent_or_blank_def)

section \<open>Three attempts, four seconds apart\<close>

text \<open>
  C6. With a key set, \<open>callGeminiAPIWithRetry\<close> makes at most 3 attempts, each with one
  request, and waits 4000 ms between two attempts. An attempt fails exactly when the
  transport fails, the status is not a success or the body is not JSON; the failure of
  attempt 1 or 2 is swallowed and the next attempt is made. The result is that of the
  first attempt that does not fail, and when attempts 1 and 2 fail it is the result of
  attempt 3, its error included.
\<close>

theorem callGeminiAPIWithRetry_three_attempts:
  assumes "\<not> no_apiKey w"
  shows "(\<forall>n. attempt_fails w n \<longleftrightarrow> (\<exists>e. fst (callGeminiAPI w n) = Inl e))
     \<and> (\<not> attempt_fails w 1 \<longrightarrow>
          callGeminiAPIWithRetry w 3 = (fst (callGeminiAPI w 1), [Attempt 1, Fetch]))
     \<and> (attempt_fails w 1 \<and> \<not> attempt_fails w 2 \<longrightarrow>
          callGeminiAPIWithRetry w 3 =
            (fst (callGeminiAPI w 2), [Attempt 1, Fetch, Delay 4000, Attempt 2, Fetch]))
     \<and> (attempt_fails w 1 \<and> attempt_fails w 2 \<longrightarrow>
          callGeminiAPIWithRetry w 3 =
            (fst (callGeminiAPI w 3),
             [Attempt 1, Fetch, Delay 4000, Attempt 2, Fetch, Delay 4000, Attempt 3, Fetch]))"
proof -
  note f = callGeminiAPI_fails_iff[OF assms]
  have t: "\<And>n. snd (callGeminiAPI w n) = [Fetch]" using callGeminiAPI_trace[OF assms] .
  have c1: "\<not> attempt_fails w 1 \<Longrightarrow>
          callGeminiAPIWithRetry w 3 = (fst (callGeminiAPI w 1), [Attempt 1, Fetch])"
    using f[of 1] t[of 1]
    by (cases "callGeminiAPI w 1") (auto simp: callGeminiAPIWithRetry_3 split: sum.splits)
  have c2: "attempt_fails w 1 \<Longrightarrow> \<not> attempt_fails w 2 \<Longrightarrow>
          callGeminiAPIWithRetry w 3 =
            (fst (callGeminiAPI w 2), [Attempt 1, Fetch, Delay 4000, Attempt 2, Fetch])"
    using f[of 1] t[of 1] f[of 2] t[of 2]
    by (cases "callGeminiAPI w 1"; cases "callGeminiAPI w 2")
       (auto simp: callGeminiAPIWithRetry_3 split: sum.splits)
  have c3: "attempt_fails w 1 \<Longrightarrow> attempt_fails w 2 \<Longrightarrow>
          callGeminiAPIWithRetry w 3 =
            (fst (callGeminiAPI w 3),
             [Attempt 1, Fetch, Delay 4000, Attempt 2, Fetch, Delay 4000, Attempt 3, Fetch])"
    using f[of 1] t[of 1] f[of 2] t[of 2] t[of 3]
    by (cases "callGeminiAPI w 1"; cases "callGeminiAPI w 2"; cases "callGeminiAPI w 3")
       (auto simp: callGeminiAPIWithRetry_3 split: sum.splits)
  from f c1 c2 c3 show ?thesis by blast
qed

theorem callGeminiAPIWithRetry_three_attempts_witness:
  "\<not> no_apiKey offline_world \<and> attempt_fails offline_world 1 \<and> attempt_fails offline_world 2
   \<and> callGeminiAPIWithRetry offline_world 3 =
       (Inl (FailedToCall (BodyNotJson (js ''Unexpected end of JSON input''))),
        [Attempt 1, Fetch, Delay 4000, Attempt 2, Fetch, Delay 4000, Attempt 3, Fetch])
   \<and> \<not> no_apiKey (sample_world [] [] JNull None)
   \<and> \<not> attempt_fails (sample_world [] [] JNull None) 1
   \<and> callGeminiAPIWithRetry (sample_world [] [] JNull None) 3 =
       (Inr (envelope []), [Attempt 1, Fetch])
   \<and> \<not> no_apiKey (offline_world\<lparr>fetch := (\<lambda>n. if n = 1 then NetworkError (js ''fetch failed'')
                                        else Response 200 (js ''OK'') (Json (envelope [])))\<rparr>)
   \<and> attempt_fails (offline_world\<lparr>fetch := (\<lambda>n. if n = 1 then NetworkError (js ''fetch failed'')
                                        else Response 200 (js ''OK'') (Json (envelope [])))\<rparr>) 1
   \<and> \<not> attempt_fails (offline_world\<lparr>fetch := (\<lambda>n. if n = 1 then NetworkError (js ''fetch failed'')
                                        else Response 200 (js ''OK'') (Json (envelope [])))\<rparr>) 2
   \<and> callGeminiAPIWithRetry
         (offline_world\<lparr>fetch := (\<lambda>n. if n = 1 then NetworkError (js ''fetch failed'')
                                        else Response 200 (js ''OK'') (Json (envelope [])))\<rparr>) 3 =
       (Inr (envelope []), [Attempt 1, Fetch, Delay 4000, Attempt 2, Fetch])"
proof -
  let ?v = "sample_world [] [] JNull None"
  let ?u = "offline_world\<lparr>fetch := (\<lambda>n. if n = 1 then NetworkError (js ''fetch failed'')
                                        else Response 200 (js ''OK'') (Json (envelope [])))\<rparr>"
  have h: "\<not> no_apiKey offline_world"
    by (simp add: no_apiKey_def apiKey_def offline_world_def js_def)
  have h1: "attempt_fails offline_world 1" by (simp add: attempt_fails_def offline_world_def)
  have h2: "attempt_fails offline_world 2"
    by (simp add: attempt_fails_def offline_world_def response_ok_def)
  have h3: "fst (callGeminiAPI offline_world 3)
              = Inl (FailedToCall (BodyNotJson (js ''Unexpected end of JSON input'')))"
    using h by (simp add: callGeminiAPI_def offline_world_def response_ok_def)
  have v: "\<not> no_apiKey ?v" by (simp add: no_apiKey_def apiKey_def sample_world_def js_def)
  have v1: "\<not> attempt_fails ?v 1"
    by (simp add: attempt_fails_def sample_world_def response_ok_def)
  have v2: "fst (callGeminiAPI ?v 1) = Inr (envelope [])"
    using v by (simp add: callGeminiAPI_def sample_world_def response_ok_def)
  have u: "\<not> no_apiKey ?u" by (simp add: no_apiKey_def apiKey_def offline_world_def js_def)
  have u1: "attempt_fails ?u 1" by (simp add: attempt_fails_def)
  have u2: "\<not> attempt_fails ?u 2" by (simp add: attempt_fails_def response_ok_def)
  have u3: "fst (callGeminiAPI ?u 2) = Inr (envelope [])"
    using u by (simp add: callGeminiAPI_def response_ok_def)
  note a = callGeminiAPIWithRetry_three_attempts [OF h]
  note b = callGeminiAPIWithRetry_three_attempts [OF v]
  note c = callGeminiAPIWithRetry_three_attempts [OF u]
  from a h1 h2 h3 have ra: "callGeminiAPIWithRetry offline_world 3 =
       (Inl (FailedToCall (BodyNotJson (js ''Unexpected end of JSON input''))),
        [Attempt 1, Fetch, Delay 4000, Attempt 2, Fetch, Delay 4000, Attempt 3, Fetch])"
    by simp
  from b v1 v2 have rb: "callGeminiAPIWithRetry ?v 3 = (Inr (envelope []), [Attempt 1, Fetch])"
    by simp
  from c u1 u2 u3 have rc: "callGeminiAPIWithRetry ?u 3 =
       (Inr (envelope []), [Attempt 1, Fetch, Delay 4000, Attempt 2, Fetch])"
    by simp
  from h h1 h2 ra v v1 rb u u1 u2 rc show ?thesis by blast
qed


section \<open>A violated constraint makes the validator throw, and nothing is retried\<close>




section \<open>A fenced response\<close>

text \<open>
  C8. For a content that is not empty and holds no three backticks in a row, a
  response whose text is a fenced code block around the content (with the tag \<open>json\<close>
  or without) is parsed by \<open>parseResponse\<close> to the same result as a response whose text
  is the content itself.
\<close>

theorem fenced_response_parses_like_content:
  assumes "content \<noteq> []" "\<not> has_fence content"
  shows "parseResponse w (envelope (fenced tagged content)) = parseResponse w (envelope content)"
proof -
  have "fenced tagged content \<noteq> []" by (simp add: fenced_def fence_eq)
  then show ?thesis
    using assms by (simp add: parseResponse_envelope match_fence_fenced no_fence_no_match trim_trim)
qed

theorem fenced_response_parses_like_content_witness:
  "sample_text (js ''7'') \<noteq> [] \<and> \<not> has_fence (sample_text (js ''7''))
   \<and> parseResponse (sample_world [] (sample_text (js ''7'')) (sample_value (Finite 7)) None)
         (envelope (fenced True (sample_text (js ''7''))))
       = parseResponse (sample_world [] (sample_text (js ''7'')) (sample_value (Finite 7)) None)
         (envelope (sample_text (js ''7'')))"
proof -
  have h1: "sample_text (js ''7'') \<noteq> []" by (simp add: sample_text_def js_def)
  have h2: "\<not> has_fence (sample_text (js ''7''))" by (simp add: sample_text_def js_def)
  from fenced_response_parses_like_content [OF h1 h2] h1 h2 show ?thesis by blast
qed

text \<open>
  As the sentence stands in the spec, this holds for every content. It does not for a
  content that holds three backticks: the lazy capture group stops at the first closing
  fence it finds. The JSON text of the string of three backticks parses to that string
  when it is the whole response, and inside a fenced block only its opening quote is
  handed to \<open>JSON.parse\<close>, which throws.
\<close>

theorem fenced_backticks_parse_differently:
  \<open>parseResponse (sample_world [] (js ''"```"'') (JStr (js ''```'')) None)
       (envelope (js ''"```"'')) = Inr (JStr (js ''```''))
   \<and> parseResponse (sample_world [] (js ''"```"'') (JStr (js ''```'')) None)
       (envelope (fenced True (js ''"```"'')))
       = Inl (FailedToParse (SyntaxError (js ''Unexpected token'')))\<close>
  by (simp add: parseResponse_def envelope_def textContent_def opt_get_def opt_get0_def
        fenced_def fence_at_def lit_def optional_def trim_def is_space_def sample_world_def
        js_def)

section \<open>The outcomes of \<open>refineGoal\<close>\<close>

text \<open>
  C9. A call of \<open>refineGoal\<close> ends in exactly one of these ways: it returns a goal that
  satisfies the schema (the input was not empty); it returns the goal
  \<open>No goal provided\<close> of \<open>handleEmptyInput\<close> (the input was empty), which does not
  satisfy the schema; it returns the object \<open>{error: "Input does not appear to be a valid
  goal."}\<close>, which holds no goal; or it throws.
\<close>

theorem refineGoal_outcomes:
  "(case fst (refineGoal w input) of
      Accepted g \<Rightarrow> (\<not> no_input input \<and> valid_goal g) \<or> (no_input input \<and> g = no_goal_provided)
    | Rejected m \<Rightarrow> \<not> no_input input \<and> m = js ''Input does not appear to be a valid goal.''
    | Failed e \<Rightarrow> True)
   \<and> \<not> valid_goal no_goal_provided"
proof (cases "fst (refineGoal w input)")
  case (Accepted g)
  show ?thesis
  proof (cases "no_input input")
    case True
    with Accepted have "g = no_goal_provided"
      using handleEmptyInput_Accepted refineGoal_no_input by metis
    with True Accepted show ?thesis by (simp add: not_valid_no_goal)
  next
    case False
    from refineGoal_Accepted[OF False Accepted] have "valid_goal g"
      using goalSchema_ok goalSchema_parse_Inr by blast
    with False Accepted show ?thesis by (simp add: not_valid_no_goal)
  qed
next
  case (Rejected m)
  then show ?thesis using refineGoal_Rejected by (simp add: not_valid_no_goal)
next
  case (Failed e)
  then show ?thesis by (simp add: not_valid_no_goal)
qed

theorem refineGoal_outcomes_witness:
  "fst (refineGoal (sample_world (sample_text (js ''7'')) (sample_text (js ''7''))
                        (sample_value (Finite 7)) None) (JStr (js ''run a bit'')))
       = Accepted (sample_goal (Finite 7))
   \<and> \<not> no_input (JStr (js ''run a bit''))
   \<and> valid_goal (sample_goal (Finite 7))"
proof -
  have h: "fst (refineGoal (sample_world (sample_text (js ''7'')) (sample_text (js ''7''))
                        (sample_value (Finite 7)) None) (JStr (js ''run a bit'')))
       = Accepted (sample_goal (Finite 7))"
    by (simp add: run_defs)
  have h2: "\<not> no_input (JStr (js ''run a bit''))"
    by (simp add: no_input_def trim_def is_space_def js_def)
  from refineGoal_outcomes [where w = "sample_world (sample_text (js ''7'')) (sample_text (js ''7''))
                        (sample_value (Finite 7)) None" and input = "JStr (js ''run a bit'')"] h h2
  show ?thesis by simp
qed

text \<open>
  As the sentence stands in the spec, every returned goal satisfies the schema. The
  goal returned for an empty input does not: it has no key results and score 0.
\<close>

theorem empty_input_goal_not_schema_valid:
  "fst (refineGoal (sample_world (sample_text (js ''4'')) (sample_text (js ''4''))
                        (sample_value (Finite 4)) None) JUndefined) = Accepted no_goal_provided
   \<and> \<not> valid_goal no_goal_provided"
proof -
  have "fst (refineGoal (sample_world (sample_text (js ''4'')) (sample_text (js ''4''))
                        (sample_value (Finite 4)) None) JUndefined) = Accepted no_goal_provided"
    by (simp add: refineGoal_def no_input_def handleEmptyInput_eq sample_world_def)
  then show ?thesis using not_valid_no_goal by blast
qed

section \<open>A returned goal has a score of at least 4\<close>

text \<open>
  C10. A goal that \<open>refineGoal\<close> returns is either the goal of \<open>handleEmptyInput\<close>, for an
  input that is empty, or it has an integer score of at least 4 (and at most 10): a
  caller never receives a goal with score 1, 2 or 3.
\<close>

theorem refineGoal_accepted_score_at_least_4:
  "fst (refineGoal w input) = Accepted g \<Longrightarrow>
     (no_input input \<and> g = no_goal_provided)
     \<or> (\<not> no_input input
        \<and> (\<exists>n::int. confidence_score g = Finite (of_int n) \<and> 4 \<le> n \<and> n \<le> 10))"
proof (cases "no_input input")
  case True
  assume "fst (refineGoal w input) = Accepted g"
  with True show ?thesis using handleEmptyInput_Accepted refineGoal_no_input by metis
next
  case False
  assume a: "fst (refineGoal w input) = Accepted g"
  from refineGoal_Accepted[OF False a] obtain v where v: "goalSchema_parse w v = Inr g"
    "\<not> num_lt (confidence_score g) (Finite 4)" by blast
  then have "valid_goal g" using goalSchema_ok goalSchema_parse_Inr by blast
  then obtain n :: int where n: "confidence_score g = Finite (of_int n)" "1 \<le> n" "n \<le> 10"
    by (auto simp: valid_goal_def)
  with v have "4 \<le> n" by simp
  with n False show ?thesis by blast
qed

theorem refineGoal_accepted_score_at_least_4_witness:
  "fst (refineGoal (sample_world (sample_text (js ''4'')) (sample_text (js ''4''))
                        (sample_value (Finite 4)) None) (JStr (js ''run a bit'')))
       = Accepted (sample_goal (Finite 4))
   \<and> \<not> no_input (JStr (js ''run a bit''))
   \<and> (\<exists>n::int. confidence_score (sample_goal (Finite 4)) = Finite (of_int n)
                 \<and> 4 \<le> n \<and> n \<le> 10)"
proof -
  have h: "fst (refineGoal (sample_world (sample_text (js ''4'')) (sample_text (js ''4''))
                        (sample_value (Finite 4)) None) (JStr (js ''run a bit'')))
       = Accepted (sample_goal (Finite 4))"
    by (simp add: run_defs)
  have h2: "\<not> no_input (JStr (js ''run a bit''))"
    by (simp add: no_input_def trim_def is_space_def js_def)
  from refineGoal_accepted_score_at_least_4 [OF h] h2 h show ?thesis by blast
qed

end
